theory Spec2Isabelle
  imports Complex_Main
begin

section \<open>Python primitives used by the sources\<close>

text \<open>
  Strings are byte strings (\<open>char list\<close>); the inputs of interest are ASCII.
  \<open>isspace\<close> lists the ASCII characters for which Python's \<open>str.isspace\<close> holds,
  \<open>strip\<close> is \<open>str.strip()\<close>, \<open>split\<close> is \<open>str.split(sep)\<close> for a one-character
  separator, \<open>split_once\<close> is \<open>str.split(sep, 1)\<close> unpacked into two names (the
  unpacking raises when the separator is absent: \<open>None\<close>), \<open>join\<close> is \<open>sep.join\<close>.
\<close>

datatype ip_error = AddressValueError

definition isspace :: "char \<Rightarrow> bool" where
  "isspace c = (c \<in> set [CHR 0x09, CHR 0x0A, CHR 0x0B, CHR 0x0C, CHR 0x0D,
                           CHR 0x1C, CHR 0x1D, CHR 0x1E, CHR 0x1F, CHR 0x20])"

definition strip :: "string \<Rightarrow> string" where
  "strip s = rev (dropWhile isspace (rev (dropWhile isspace s)))"

fun split :: "char \<Rightarrow> string \<Rightarrow> string list" where
  "split sep [] = [[]]"
| "split sep (c # cs) =
     (if c = sep then [] # split sep cs
      else (case split sep cs of [] \<Rightarrow> [[c]] | p # ps \<Rightarrow> (c # p) # ps))"

definition split_once :: "char \<Rightarrow> string \<Rightarrow> (string \<times> string) option" where
  "split_once sep s =
     (if sep \<in> set s
      then Some (takeWhile (\<lambda>c. c \<noteq> sep) s, tl (dropWhile (\<lambda>c. c \<noteq> sep) s))
      else None)"

fun join :: "string \<Rightarrow> string list \<Rightarrow> string" where
  "join sep [] = []"
| "join sep [x] = x"
| "join sep (x # y # ys) = x @ sep @ join sep (y # ys)"

definition isdigit :: "char \<Rightarrow> bool" where
  "isdigit c = (c \<in> set ''0123456789'')"

definition digit_val :: "char \<Rightarrow> nat" where
  "digit_val c = of_char c - 48"

definition digit_char :: "nat \<Rightarrow> char" where
  "digit_char n = ''0123456789'' ! n"

text \<open>\<open>int(s, 10)\<close> on a string of ASCII digits.\<close>

definition int_of_digits :: "string \<Rightarrow> nat" where
  "int_of_digits s = foldl (\<lambda>n c. 10 * n + digit_val c) 0 s"

text \<open>\<open>str(n)\<close> for a non-negative integer.\<close>

fun str_nat :: "nat \<Rightarrow> string" where
  "str_nat n = (if n < 10 then [digit_char n] else str_nat (n div 10) @ [digit_char (n mod 10)])"

declare str_nat.simps [simp del]

section \<open>The \<open>ipaddress\<close> module, IPv4 part\<close>

text \<open>
  \<open>ipaddress.ip_address(s)\<close> tries \<open>IPv4Address(s)\<close> first. An IPv4 address is its
  32-bit number. \<open>parse_octet\<close> is \<open>IPv4Address._parse_octet\<close> (no empty octet, ASCII
  digits only, at most three characters, no leading zero, at most 255; \<open>None\<close> is
  the \<open>ValueError\<close> that the caller turns into \<open>AddressValueError\<close>), \<open>ip_address\<close>
  is \<open>_ip_int_from_string\<close> behind the \<open>'/'\<close> check of the constructor. A text that is
  no IPv4 address is reported as an error; Python would go on to try \<open>IPv6Address\<close>,
  which needs at least two colons in the text and is outside this model. The rule on
  leading zeros is that of Python 3.9.5 and later.
\<close>

definition parse_octet :: "string \<Rightarrow> nat option" where
  "parse_octet octet_str =
     (if octet_str = [] then None
      else if \<not> list_all isdigit octet_str then None
      else if length octet_str > 3 then None
      else if octet_str \<noteq> ''0'' \<and> hd octet_str = CHR ''0'' then None
      else if int_of_digits octet_str > 255 then None
      else Some (int_of_digits octet_str))"

text \<open>\<open>int.from_bytes\<close> of four octets and \<open>to_bytes(4, 'big')\<close>, big-endian.\<close>

definition from_bytes :: "nat \<Rightarrow> nat \<Rightarrow> nat \<Rightarrow> nat \<Rightarrow> nat" where
  "from_bytes a b c d = ((a * 256 + b) * 256 + c) * 256 + d"

definition to_bytes :: "nat \<Rightarrow> nat list" where
  "to_bytes n = [n div 16777216 mod 256, n div 65536 mod 256, n div 256 mod 256, n mod 256]"

definition ip_address :: "string \<Rightarrow> ip_error + nat" where
  "ip_address addr_str =
     (if CHR ''/'' \<in> set addr_str then Inl AddressValueError
      else if addr_str = [] then Inl AddressValueError
      else (case map parse_octet (split CHR ''.'' addr_str) of
              [Some a, Some b, Some c, Some d] \<Rightarrow> Inr (from_bytes a b c d)
            | _ \<Rightarrow> Inl AddressValueError))"

text \<open>\<open>str(address)\<close>: the four bytes of the number, big-endian, in decimal, dotted.\<close>

definition str_ip :: "nat \<Rightarrow> string" where
  "str_ip n = join ''.'' (map str_nat (to_bytes n))"

text \<open>\<open>address + 1\<close> raises \<open>AddressValueError\<close> beyond 255.255.255.255.\<close>

definition ALL_ONES :: nat where
  "ALL_ONES = 4294967295"

definition ip_add1 :: "nat \<Rightarrow> ip_error + nat" where
  "ip_add1 n = (if n + 1 > ALL_ONES then Inl AddressValueError else Inr (n + 1))"

section \<open>Target expansion (\<open>IPProcessor\<close>, app.py)\<close>

record target_data =
  ip :: string
  ports :: "string list"

text \<open>
  The bounds of a range, as \<open>expand_range\<close> computes them after splitting at the first
  \<open>'-'\<close> and stripping both parts. Any exception inside \<open>expand_range\<close> is caught and
  answered with the unexpanded line; the message it prints is not part of the model.
\<close>

definition range_bounds :: "string \<Rightarrow> string \<Rightarrow> ip_error + (nat \<times> nat)" where
  "range_bounds start_ip end_part =
     (if CHR ''.'' \<in> set end_part then
        (case ip_address start_ip of Inl e \<Rightarrow> Inl e
         | Inr start \<Rightarrow> (case ip_address end_part of Inl e \<Rightarrow> Inl e
             | Inr end \<Rightarrow> Inr (start, end)))
      else
        (let ip_parts = split CHR ''.'' start_ip;
             end_ip = join ''.'' (butlast ip_parts @ [end_part])
         in case ip_address start_ip of Inl e \<Rightarrow> Inl e
            | Inr start \<Rightarrow> (case ip_address end_ip of Inl e \<Rightarrow> Inl e
                | Inr end \<Rightarrow> Inr (start, end))))"

text \<open>
  The \<open>while current <= end\<close> loop: append, increment (which may raise), then leave
  once more than 1000 addresses have been collected.
\<close>

function range_loop :: "nat \<Rightarrow> nat \<Rightarrow> string list \<Rightarrow> ip_error + string list" where
  "range_loop current end ips =
     (if current \<le> end then
        (case ip_add1 current of Inl e \<Rightarrow> Inl e
         | Inr next \<Rightarrow>
             if length (ips @ [str_ip current]) > 1000 then Inr (ips @ [str_ip current])
             else range_loop next end (ips @ [str_ip current]))
      else Inr ips)"
  by pat_completeness auto
termination
  by (relation "measure (\<lambda>(current, end, ips). Suc end - current)")
     (auto simp: ip_add1_def split: if_splits)

declare range_loop.simps [simp del]

definition expand_range :: "string \<Rightarrow> string list" where
  "expand_range ip_range =
     (case split_once CHR ''-'' ip_range of
        None \<Rightarrow> [ip_range]
      | Some (start_ip, end_part) \<Rightarrow>
          (case range_bounds (strip start_ip) (strip end_part) of
             Inl e \<Rightarrow> [ip_range]
           | Inr (start, end) \<Rightarrow>
               (case range_loop start end [] of
                  Inl e \<Rightarrow> [ip_range]
                | Inr ips \<Rightarrow> ips)))"

definition parse_ip_with_ports :: "string \<Rightarrow> target_data" where
  "parse_ip_with_ports ip_port =
     (case split_once CHR '':'' ip_port of
        None \<Rightarrow> \<lparr>ip = strip ip_port, ports = []\<rparr>
      | Some (ip_str, ports_str) \<Rightarrow>
          \<lparr>ip = strip ip_str,
           ports = map strip (filter (\<lambda>p. strip p \<noteq> []) (split CHR '','' ports_str))\<rparr>)"

text \<open>
  One stripped, non-empty line of \<open>process_input\<close>. \<open>expand_cidr\<close> rests on
  \<open>ipaddress.ip_network\<close> and is a parameter here.
\<close>

definition process_line :: "(string \<Rightarrow> string list) \<Rightarrow> string \<Rightarrow> target_data list" where
  "process_line expand_cidr line =
     (if CHR ''/'' \<in> set line then
        map (\<lambda>a. \<lparr>ip = a, ports = []\<rparr>) (expand_cidr line)
      else if CHR ''-'' \<in> set line \<and> \<not> (take 1 line = ''-'') then
        map (\<lambda>a. \<lparr>ip = a, ports = []\<rparr>) (expand_range line)
      else if CHR '':'' \<in> set line then [parse_ip_with_ports line]
      else [\<lparr>ip = line, ports = []\<rparr>])"

definition process_input :: "(string \<Rightarrow> string list) \<Rightarrow> string \<Rightarrow> target_data list" where
  "process_input expand_cidr input_text =
     concat (map (process_line expand_cidr)
       (map strip (filter (\<lambda>line. strip line \<noteq> []) (split CHR 0x0A input_text))))"

section \<open>Python values, dictionaries and exceptions\<close>

text \<open>
  The result dictionaries hold strings, integers, \<open>None\<close>, lists and dictionaries. A
  dictionary is an association list in insertion order with unique keys:
  \<open>dict_set\<close> is \<open>d[k] = v\<close>, \<open>dict_update\<close> is \<open>d.update(...)\<close>, \<open>dict_del\<close> is
  \<open>del d[k]\<close> for a present key, and \<open>map_of d k\<close> reads a key (\<open>None\<close>: absent).
  An exception carries its message \<open>str(e)\<close>.
\<close>

datatype pyval =
    PNone
  | PStr string
  | PInt int
  | PList "pyval list"
  | PDict "(string \<times> pyval) list"

type_synonym dict = "(string \<times> pyval) list"

datatype error = ValueError string | OSError string | ParseError string

fun str_error :: "error \<Rightarrow> string" where
  "str_error (ValueError msg) = msg"
| "str_error (OSError msg) = msg"
| "str_error (ParseError msg) = msg"

fun dict_set :: "string \<Rightarrow> pyval \<Rightarrow> dict \<Rightarrow> dict" where
  "dict_set k v [] = [(k, v)]"
| "dict_set k v ((k', v') # d) = (if k' = k then (k, v) # d else (k', v') # dict_set k v d)"

fun dict_update :: "dict \<Rightarrow> dict \<Rightarrow> dict" where
  "dict_update d [] = d"
| "dict_update d ((k, v) # kvs) = dict_update (dict_set k v d) kvs"

definition opt_str :: "string option \<Rightarrow> pyval" where
  "opt_str x = (case x of None \<Rightarrow> PNone | Some s \<Rightarrow> PStr s)"

section \<open>\<open>int(text)\<close>\<close>

text \<open>
  \<open>int(s)\<close> on a string: white space around is dropped, one sign is allowed, then
  decimal digits, single underscores between digits allowed. Otherwise \<open>ValueError\<close>,
  whose message quotes at most 200 characters of \<open>repr(s)\<close>. \<open>py_repr\<close> is \<open>repr\<close> on
  ASCII text.
\<close>

fun digits_ok :: "string \<Rightarrow> bool" where
  "digits_ok [] = False"
| "digits_ok [c] = isdigit c"
| "digits_ok (c # d # rest) =
     (isdigit c \<and> (if d = CHR ''_'' then digits_ok rest else digits_ok (d # rest)))"

definition hex_digit :: "nat \<Rightarrow> char" where
  "hex_digit n = ''0123456789abcdef'' ! n"

definition escape_char :: "char \<Rightarrow> char \<Rightarrow> string" where
  "escape_char quote c =
     (if c = quote \<or> c = CHR 0x5C then [CHR 0x5C, c]
      else if c = CHR 0x0A then [CHR 0x5C, CHR ''n'']
      else if c = CHR 0x0D then [CHR 0x5C, CHR ''r'']
      else if c = CHR 0x09 then [CHR 0x5C, CHR ''t'']
      else if (of_char c :: nat) < 32 \<or> (of_char c :: nat) = 127
        then [CHR 0x5C, CHR ''x'', hex_digit (of_char c div 16), hex_digit (of_char c mod 16)]
      else [c])"

definition py_repr :: "string \<Rightarrow> string" where
  "py_repr s =
     (let quote = (if CHR 0x27 \<in> set s \<and> CHR 0x22 \<notin> set s then CHR 0x22 else CHR 0x27)
      in [quote] @ concat (map (escape_char quote) s) @ [quote])"

definition py_int :: "string \<Rightarrow> error + int" where
  "py_int s =
     (let t = strip s;
          body = (if t \<noteq> [] \<and> (hd t = CHR ''-'' \<or> hd t = CHR ''+'') then tl t else t);
          magnitude = int (int_of_digits (filter (\<lambda>c. c \<noteq> CHR ''_'') body))
      in if digits_ok body
         then Inr (if t \<noteq> [] \<and> hd t = CHR ''-'' then - magnitude else magnitude)
         else Inl (ValueError (''invalid literal for int() with base 10: '' @ take 200 (py_repr s))))"

text \<open>\<open>int(e.get(key, 0))\<close>: the attribute's text converted, or 0 when it is absent.\<close>

definition int_attr :: "string option \<Rightarrow> error + int" where
  "int_attr x = (case x of None \<Rightarrow> Inr 0 | Some s \<Rightarrow> py_int s)"

section \<open>XML element trees (\<open>xml.etree.ElementTree\<close>)\<close>

text \<open>
  An element has a tag, attributes, optional text and child elements. \<open>find\<close> is the
  first child with a tag, \<open>findall\<close> all children with it in document order,
  \<open>findall2\<close> the path \<open>a/b\<close>, \<open>get\<close> an attribute (\<open>None\<close> if absent) and \<open>get_or\<close> an
  attribute with a default. The outcome of \<open>ET.parse(path).getroot()\<close> is the input of the
  parser: the exception it raised (file missing, not well-formed) or the root element.
\<close>

datatype element =
  Element (tag: string) (attrib: "(string \<times> string) list") (etext: "string option")
          (children: "element list")

definition find :: "string \<Rightarrow> element \<Rightarrow> element option" where
  "find t e = List.find (\<lambda>c. tag c = t) (children e)"

definition findall :: "string \<Rightarrow> element \<Rightarrow> element list" where
  "findall t e = filter (\<lambda>c. tag c = t) (children e)"

definition findall2 :: "string \<Rightarrow> string \<Rightarrow> element \<Rightarrow> element list" where
  "findall2 t u e = concat (map (findall u) (findall t e))"

definition get :: "element \<Rightarrow> string \<Rightarrow> string option" where
  "get e k = map_of (attrib e) k"

definition get_or :: "element \<Rightarrow> string \<Rightarrow> string \<Rightarrow> string" where
  "get_or e k d = (case map_of (attrib e) k of None \<Rightarrow> d | Some v \<Rightarrow> v)"

type_synonym xml_source = "error + element"

section \<open>Result parser of app.py (\<open>NmapScanner.parse_nmap_xml\<close>)\<close>

definition hostname_entry :: "element \<Rightarrow> pyval" where
  "hostname_entry hostname =
     PDict [(''name'', opt_str (get hostname ''name'')), (''type'', opt_str (get hostname ''type''))]"

definition script_entry_app :: "element \<Rightarrow> pyval" where
  "script_entry_app script =
     PDict [(''id'', opt_str (get script ''id'')), (''output'', PStr (get_or script ''output'' ''''))]"

text \<open>
  The dictionary \<open>port_data\<close> built for one port node: the literal, then the service
  information, then the script results.
\<close>

definition port_base_app :: "element \<Rightarrow> dict" where
  "port_base_app port =
     [(''port'', opt_str (get port ''portid'')),
      (''protocol'', opt_str (get port ''protocol'')),
      (''state'', (case find ''state'' port of
                     Some st \<Rightarrow> opt_str (get st ''state'')
                   | None \<Rightarrow> PStr ''unknown''))]"

definition port_service_app :: "element \<Rightarrow> dict \<Rightarrow> dict" where
  "port_service_app port port_data =
     (case find ''service'' port of
        None \<Rightarrow> port_data
      | Some service \<Rightarrow> dict_update port_data
          [(''service'', PStr (get_or service ''name'' '''')),
           (''version'', PStr (get_or service ''version'' '''')),
           (''product'', PStr (get_or service ''product'' '''')),
           (''extrainfo'', PStr (get_or service ''extrainfo'' ''''))])"

definition port_scripts_app :: "element \<Rightarrow> dict \<Rightarrow> dict" where
  "port_scripts_app port port_data =
     (let scripts = findall ''script'' port
      in if scripts \<noteq> []
         then dict_set ''scripts'' (PList (map script_entry_app scripts)) port_data
         else port_data)"

definition port_data_app :: "element \<Rightarrow> dict" where
  "port_data_app port = port_scripts_app port (port_service_app port (port_base_app port))"

text \<open>
  The loop over the port nodes: append the entry to \<open>services\<close>, and add one to
  \<open>open_ports\<close> when the entry's state equals \<open>'open'\<close>.
\<close>

fun ports_loop :: "(element \<Rightarrow> dict) \<Rightarrow> element list \<Rightarrow> pyval list \<times> int \<Rightarrow> pyval list \<times> int" where
  "ports_loop entry [] (services, open_ports) = (services, open_ports)"
| "ports_loop entry (port # rest) (services, open_ports) =
     ports_loop entry rest
       (services @ [PDict (entry port)],
        (if map_of (entry port) ''state'' = Some (PStr ''open'') then open_ports + 1 else open_ports))"

definition initial_result_app :: dict where
  "initial_result_app =
     [(''host_status'', PStr ''down''), (''open_ports'', PInt 0), (''services'', PList []),
      (''os_info'', PStr ''''), (''hostnames'', PList []), (''scan_summary'', PDict [])]"

definition host_status_app :: "element \<Rightarrow> dict \<Rightarrow> dict" where
  "host_status_app host result =
     (case find ''status'' host of
        None \<Rightarrow> result
      | Some status \<Rightarrow> dict_set ''host_status'' (PStr (get_or status ''state'' ''unknown'')) result)"

definition hostnames_step :: "element \<Rightarrow> dict \<Rightarrow> dict" where
  "hostnames_step host result =
     (case find ''hostnames'' host of
        None \<Rightarrow> result
      | Some hostnames \<Rightarrow>
          dict_set ''hostnames'' (PList (map hostname_entry (findall ''hostname'' hostnames))) result)"

definition ports_app :: "element \<Rightarrow> dict \<Rightarrow> dict" where
  "ports_app host result =
     (case find ''ports'' host of
        None \<Rightarrow> result
      | Some ports_elem \<Rightarrow>
          (case ports_loop port_data_app (findall ''port'' ports_elem) ([], 0) of
             (services, open_ports) \<Rightarrow>
               dict_set ''open_ports'' (PInt open_ports) (dict_set ''services'' (PList services) result)))"

definition os_app :: "element \<Rightarrow> dict \<Rightarrow> dict" where
  "os_app host result =
     (case find ''os'' host of
        None \<Rightarrow> result
      | Some os_elem \<Rightarrow>
          (case find ''osmatch'' os_elem of
             None \<Rightarrow> result
           | Some osmatch \<Rightarrow> dict_set ''os_info'' (PStr (get_or osmatch ''name'' '''')) result))"

definition runstats_app :: "element \<Rightarrow> dict \<Rightarrow> dict" where
  "runstats_app root_elem result =
     (case find ''runstats'' root_elem of
        None \<Rightarrow> result
      | Some runstats \<Rightarrow>
          (case find ''finished'' runstats of
             None \<Rightarrow> result
           | Some finished \<Rightarrow>
               dict_set ''scan_summary''
                 (PDict [(''elapsed'', opt_str (get finished ''elapsed'')),
                         (''timestr'', opt_str (get finished ''timestr'')),
                         (''exit'', opt_str (get finished ''exit''))]) result))"

definition parse_nmap_xml_app :: "xml_source \<Rightarrow> dict" where
  "parse_nmap_xml_app xml_file =
     (case xml_file of
        Inl e \<Rightarrow> [(''parse_error'', PStr (str_error e))]
      | Inr root_elem \<Rightarrow>
          (case find ''host'' root_elem of
             None \<Rightarrow> initial_result_app
           | Some host \<Rightarrow>
               runstats_app root_elem (os_app host (ports_app host (hostnames_step host
                 (host_status_app host initial_result_app))))))"

section \<open>Result parser of nmap_scanner.py (\<open>NmapScanner.parse_nmap_xml\<close>)\<close>

text \<open>
  The body of the \<open>try\<close> block, one definition per commented part of the source, in the
  order of the source. The two parts that call \<open>int\<close> on an attribute may raise; the
  \<open>except\<close> clause then replaces the whole result by \<open>{'parse_error': str(e)}\<close>.
\<close>

definition initial_result :: dict where
  "initial_result =
     [(''host_status'', PStr ''down''), (''open_ports'', PInt 0), (''services'', PList []),
      (''os_info'', PStr ''''), (''hostnames'', PList []), (''scan_info'', PDict []),
      (''scripts'', PDict [])]"

definition scaninfo_step :: "element \<Rightarrow> dict \<Rightarrow> dict" where
  "scaninfo_step root_elem result =
     (case find ''scaninfo'' root_elem of
        None \<Rightarrow> result
      | Some scaninfo \<Rightarrow>
          dict_set ''scan_info''
            (PDict [(''type'', opt_str (get scaninfo ''type'')),
                    (''protocol'', opt_str (get scaninfo ''protocol'')),
                    (''numservices'', opt_str (get scaninfo ''numservices'')),
                    (''services'', opt_str (get scaninfo ''services''))]) result)"

definition host_status_step :: "element \<Rightarrow> dict \<Rightarrow> dict" where
  "host_status_step host result =
     (case find ''status'' host of
        None \<Rightarrow> result
      | Some status \<Rightarrow>
          dict_set ''host_status_reason'' (PStr (get_or status ''reason'' ''''))
            (dict_set ''host_status'' (PStr (get_or status ''state'' ''unknown'')) result))"

fun address_loop :: "element list \<Rightarrow> dict \<Rightarrow> dict" where
  "address_loop [] result = result"
| "address_loop (address # rest) result =
     address_loop rest
       (if get address ''addrtype'' = Some ''mac''
        then dict_set ''mac_vendor'' (PStr (get_or address ''vendor'' ''''))
               (dict_set ''mac_address'' (opt_str (get address ''addr'')) result)
        else result)"

definition address_step :: "element \<Rightarrow> dict \<Rightarrow> dict" where
  "address_step host result = address_loop (findall ''address'' host) result"

text \<open>\<open>script_data['elements'][key] = elem.text\<close> for every \<open>elem\<close> with a non-empty key.\<close>

fun elements_loop :: "element list \<Rightarrow> dict \<Rightarrow> dict" where
  "elements_loop [] elements = elements"
| "elements_loop (elem # rest) elements =
     elements_loop rest
       (case get elem ''key'' of
          None \<Rightarrow> elements
        | Some key \<Rightarrow> if key \<noteq> [] then dict_set key (opt_str (etext elem)) elements else elements)"

definition script_entry :: "element \<Rightarrow> pyval" where
  "script_entry script =
     (let script_data = [(''id'', opt_str (get script ''id'')),
                         (''output'', PStr (get_or script ''output'' ''''))];
          elements = findall ''elem'' script
      in PDict (if elements \<noteq> []
                then dict_set ''elements'' (PDict (elements_loop elements [])) script_data
                else script_data))"

text \<open>
  The dictionary \<open>port_data\<close> built for one port node: the literal, the port state,
  the service information with its CPE list, the script results.
\<close>

definition port_base :: "element \<Rightarrow> dict" where
  "port_base port =
     [(''port'', opt_str (get port ''portid'')),
      (''protocol'', opt_str (get port ''protocol'')),
      (''state'', PStr ''unknown'')]"

definition port_state_step :: "element \<Rightarrow> dict \<Rightarrow> dict" where
  "port_state_step port port_data =
     (case find ''state'' port of
        None \<Rightarrow> port_data
      | Some state \<Rightarrow>
          dict_set ''reason_ttl'' (PStr (get_or state ''reason_ttl'' ''''))
            (dict_set ''reason'' (PStr (get_or state ''reason'' ''''))
              (dict_set ''state'' (opt_str (get state ''state'')) port_data)))"

definition port_service_step :: "element \<Rightarrow> dict \<Rightarrow> dict" where
  "port_service_step port port_data =
     (case find ''service'' port of
        None \<Rightarrow> port_data
      | Some service \<Rightarrow>
          (let updated = dict_update port_data
                 [(''service'', PStr (get_or service ''name'' '''')),
                  (''product'', PStr (get_or service ''product'' '''')),
                  (''version'', PStr (get_or service ''version'' '''')),
                  (''extrainfo'', PStr (get_or service ''extrainfo'' '''')),
                  (''ostype'', PStr (get_or service ''ostype'' '''')),
                  (''method'', PStr (get_or service ''method'' '''')),
                  (''conf'', PStr (get_or service ''conf'' ''''))];
               cpes = findall ''cpe'' service
           in if cpes \<noteq> []
              then dict_set ''cpe'' (PList (map (\<lambda>cpe. opt_str (etext cpe)) cpes)) updated
              else updated))"

definition port_scripts_step :: "element \<Rightarrow> dict \<Rightarrow> dict" where
  "port_scripts_step port port_data =
     (let scripts = findall ''script'' port
      in if scripts \<noteq> []
         then dict_set ''scripts'' (PList (map script_entry scripts)) port_data
         else port_data)"

definition port_data :: "element \<Rightarrow> dict" where
  "port_data port =
     port_scripts_step port (port_service_step port (port_state_step port (port_base port)))"

definition ports_step :: "element \<Rightarrow> dict \<Rightarrow> error + dict" where
  "ports_step host result =
     (case find ''ports'' host of
        None \<Rightarrow> Inr result
      | Some ports_elem \<Rightarrow>
          (case (case find ''extraports'' ports_elem of
                   None \<Rightarrow> Inr result
                 | Some extraports \<Rightarrow>
                     (case int_attr (get extraports ''count'') of
                        Inl e \<Rightarrow> Inl e
                      | Inr count \<Rightarrow>
                          Inr (dict_set ''extraports''
                                 (PDict [(''state'', opt_str (get extraports ''state'')),
                                         (''count'', PInt count)]) result))) of
             Inl e \<Rightarrow> Inl e
           | Inr result \<Rightarrow>
               (case ports_loop port_data (findall ''port'' ports_elem) ([], 0) of
                  (services, open_ports) \<Rightarrow>
                    Inr (dict_set ''open_ports'' (PInt open_ports)
                          (dict_set ''services'' (PList services) result)))))"

definition osclass_entry :: "element \<Rightarrow> pyval" where
  "osclass_entry osclass =
     PDict [(''type'', opt_str (get osclass ''type'')),
            (''vendor'', opt_str (get osclass ''vendor'')),
            (''osfamily'', opt_str (get osclass ''osfamily'')),
            (''osgen'', opt_str (get osclass ''osgen'')),
            (''accuracy'', opt_str (get osclass ''accuracy''))]"

definition os_step :: "element \<Rightarrow> dict \<Rightarrow> dict" where
  "os_step host result =
     (case find ''os'' host of
        None \<Rightarrow> result
      | Some os_elem \<Rightarrow>
          (let result =
                 (case findall ''osmatch'' os_elem of
                    [] \<Rightarrow> result
                  | best_match # others \<Rightarrow>
                      (let result = dict_set ''os_accuracy'' (PStr (get_or best_match ''accuracy'' ''''))
                                      (dict_set ''os_info'' (PStr (get_or best_match ''name'' '''')) result);
                           osclasses = findall ''osclass'' best_match
                       in if osclasses \<noteq> []
                          then dict_set ''os_classes'' (PList (map osclass_entry osclasses)) result
                          else result))
           in (case find ''portused'' os_elem of
                 None \<Rightarrow> result
               | Some portused \<Rightarrow>
                   dict_set ''os_portused''
                     (PDict [(''state'', opt_str (get portused ''state'')),
                             (''proto'', opt_str (get portused ''proto'')),
                             (''portid'', opt_str (get portused ''portid''))]) result)))"

definition hostscript_step :: "element \<Rightarrow> dict \<Rightarrow> dict" where
  "hostscript_step host result =
     (let hostscripts = findall2 ''hostscript'' ''script'' host
      in if hostscripts \<noteq> []
         then dict_set ''host_scripts'' (PList (map script_entry_app hostscripts)) result
         else result)"

definition hop_entry :: "element \<Rightarrow> pyval" where
  "hop_entry hop =
     PDict [(''ttl'', opt_str (get hop ''ttl'')),
            (''ipaddr'', opt_str (get hop ''ipaddr'')),
            (''rtt'', opt_str (get hop ''rtt'')),
            (''host'', PStr (get_or hop ''host'' ''''))]"

definition trace_step :: "element \<Rightarrow> dict \<Rightarrow> dict" where
  "trace_step host result =
     (case find ''trace'' host of
        None \<Rightarrow> result
      | Some trace \<Rightarrow> dict_set ''traceroute'' (PList (map hop_entry (findall ''hop'' trace))) result)"

definition times_step :: "element \<Rightarrow> dict \<Rightarrow> dict" where
  "times_step host result =
     (case find ''times'' host of
        None \<Rightarrow> result
      | Some times_elem \<Rightarrow>
          dict_set ''scan_times''
            (PDict [(''srtt'', opt_str (get times_elem ''srtt'')),
                    (''rttvar'', opt_str (get times_elem ''rttvar'')),
                    (''to'', opt_str (get times_elem ''to''))]) result)"

definition runstats_step :: "element \<Rightarrow> dict \<Rightarrow> error + dict" where
  "runstats_step root_elem result =
     (case find ''runstats'' root_elem of
        None \<Rightarrow> Inr result
      | Some runstats \<Rightarrow>
          (let result =
                 (case find ''finished'' runstats of
                    None \<Rightarrow> result
                  | Some finished \<Rightarrow>
                      dict_set ''scan_summary''
                        (PDict [(''elapsed'', opt_str (get finished ''elapsed'')),
                                (''time'', opt_str (get finished ''time'')),
                                (''timestr'', opt_str (get finished ''timestr'')),
                                (''exit'', opt_str (get finished ''exit''))]) result)
           in (case find ''hosts'' runstats of
                 None \<Rightarrow> Inr result
               | Some hosts \<Rightarrow>
                   (case int_attr (get hosts ''up'') of
                      Inl e \<Rightarrow> Inl e
                    | Inr up_count \<Rightarrow>
                        (case int_attr (get hosts ''down'') of
                           Inl e \<Rightarrow> Inl e
                         | Inr down_count \<Rightarrow>
                             (case int_attr (get hosts ''total'') of
                                Inl e \<Rightarrow> Inl e
                              | Inr total_count \<Rightarrow>
                                  Inr (dict_set ''hosts_summary''
                                         (PDict [(''up'', PInt up_count), (''down'', PInt down_count),
                                                 (''total'', PInt total_count)]) result)))))))"

definition parse_body :: "element \<Rightarrow> error + dict" where
  "parse_body root_elem =
     (let result = scaninfo_step root_elem initial_result
      in case find ''host'' root_elem of
           None \<Rightarrow> Inr result
         | Some host \<Rightarrow>
             (case ports_step host (address_step host (hostnames_step host
                     (host_status_step host result))) of
                Inl e \<Rightarrow> Inl e
              | Inr result \<Rightarrow>
                  runstats_step root_elem (times_step host (trace_step host
                    (hostscript_step host (os_step host result))))))"

definition parse_nmap_xml :: "xml_source \<Rightarrow> dict" where
  "parse_nmap_xml xml_file =
     (case xml_file of
        Inl e \<Rightarrow> [(''parse_error'', PStr (str_error e))]
      | Inr root_elem \<Rightarrow>
          (case parse_body root_elem of
             Inl e \<Rightarrow> [(''parse_error'', PStr (str_error e))]
           | Inr result \<Rightarrow> result))"

section \<open>The nodes the parsers read\<close>

text \<open>
  Both parsers read the port nodes of one place only: the \<open>port\<close> children of the first
  \<open>ports\<close> child of the first \<open>host\<close> child of the root. The state of a port node is the
  \<open>state\<close> attribute of its first \<open>state\<close> child.
\<close>

definition port_nodes :: "element \<Rightarrow> element list" where
  "port_nodes root_elem =
     (case find ''host'' root_elem of
        None \<Rightarrow> []
      | Some host \<Rightarrow>
          (case find ''ports'' host of
             None \<Rightarrow> []
           | Some ports_elem \<Rightarrow> findall ''port'' ports_elem))"

definition port_state :: "element \<Rightarrow> string option" where
  "port_state port = (case find ''state'' port of None \<Rightarrow> None | Some st \<Rightarrow> get st ''state'')"

text \<open>
  The port nodes of a whole artifact, as the claim on the open-port count words it:
  every element below the root whose tag is \<open>port\<close>, in document order, whichever host
  or ports block it belongs to.
\<close>

fun descendants :: "element \<Rightarrow> element list" where
  "descendants (Element t a x cs) = concat (map (\<lambda>c. c # descendants c) cs)"

definition all_port_nodes :: "element \<Rightarrow> element list" where
  "all_port_nodes root_elem = filter (\<lambda>e. tag e = ''port'') (descendants root_elem)"

section \<open>Command builder (\<open>NmapScanner.build_nmap_command\<close>)\<close>

text \<open>
  The options dictionary with the keys the builder reads. A missing key is \<open>None\<close> for
  the three text options and \<open>False\<close> for the check boxes, as \<open>options.get\<close> gives.
  The two source files differ in the preset table and in the preset taken when the
  key is missing: none in app.py, \<open>'fast'\<close> in nmap_scanner.py.
\<close>

record options =
  preset :: "string option"
  scripts :: bool
  version_detection :: bool
  os_detection :: bool
  skip_ping :: bool
  ping_only :: bool
  aggressive :: bool
  verbose :: bool
  timing :: "string option"
  custom_ports :: "string option"

definition scan_presets_app :: "(string \<times> string list) list" where
  "scan_presets_app =
     [(''fast'', [''-F'']),
      (''top1000'', [''--top-ports'', ''1000'']),
      (''allports'', [''-p-'']),
      (''udp'', [''-sU'']),
      (''stealth'', [''-sS'']),
      (''comprehensive'', [''-A'']),
      (''vuln'', [''--script=vuln'']),
      (''discovery'', [''-sn'']),
      (''ping_only'', [''-sn''])]"

definition scan_presets :: "(string \<times> string list) list" where
  "scan_presets =
     [(''fast'', [''-F'']),
      (''top1000'', [''--top-ports'', ''1000'']),
      (''allports'', [''-p-'']),
      (''udp'', [''-sU'', ''--top-ports'', ''100'']),
      (''stealth'', [''-sS'']),
      (''comprehensive'', [''-A'']),
      (''vuln'', [''--script=vuln'']),
      (''discovery'', [''-sn'']),
      (''ping_only'', [''-sn''])]"

text \<open>
  The source reads the wall clock itself, \<open>timestamp = int(time.time())\<close>; the reading
  \<open>now\<close> of that call is an argument of the model. \<open>int\<close> of a float truncates
  towards zero, \<open>str_int\<close> is \<open>str\<close> of an integer.
\<close>

definition int_of_time :: "real \<Rightarrow> int" where
  "int_of_time t = (if 0 \<le> t then \<lfloor>t\<rfloor> else \<lceil>t\<rceil>)"

definition str_int :: "int \<Rightarrow> string" where
  "str_int i = (if i < 0 then CHR ''-'' # str_nat (nat (- i)) else str_nat (nat i))"

definition safe_ip :: "string \<Rightarrow> string" where
  "safe_ip target_ip = map (\<lambda>c. if c = CHR ''.'' \<or> c = CHR '':'' then CHR ''_'' else c) target_ip"

definition option_flags :: "options \<Rightarrow> string list" where
  "option_flags opts =
     (if scripts opts then [''-sC''] else []) @
     (if version_detection opts then [''-sV''] else []) @
     (if os_detection opts then [''-O''] else []) @
     (if skip_ping opts then [''-Pn''] else []) @
     (if ping_only opts then [''-sn''] else []) @
     (if aggressive opts then [''-A''] else []) @
     (if verbose opts then [''-v''] else [])"

definition timing_flag :: "options \<Rightarrow> string list" where
  "timing_flag opts =
     (case timing opts of None \<Rightarrow> [''-T3''] | Some t \<Rightarrow> if t \<noteq> [] then [t] else [])"

definition port_flag :: "target_data \<Rightarrow> options \<Rightarrow> string list" where
  "port_flag target opts =
     (if custom_ports opts \<noteq> None \<and> custom_ports opts \<noteq> Some []
      then [''-p'', the (custom_ports opts)]
      else if ports target \<noteq> [] then [''-p'', join '','' (ports target)]
      else [])"

definition output_file_name :: "real \<Rightarrow> target_data \<Rightarrow> string" where
  "output_file_name now target = ''scan_'' @ safe_ip (ip target) @ ''_'' @ str_int (int_of_time now)"

definition assemble :: "string list \<Rightarrow> real \<Rightarrow> target_data \<Rightarrow> options \<Rightarrow> string list \<times> string" where
  "assemble preset_flags now target opts =
     (let output_file = output_file_name now target
      in ([''nmap''] @ preset_flags @ option_flags opts @ timing_flag opts @ port_flag target opts @
          [''-oX'', output_file @ ''.xml''] @
          [''-oN'', output_file @ ''.nmap''] @
          [''-oG'', output_file @ ''.gnmap''] @
          [ip target],
          output_file))"

definition build_nmap_command_app :: "real \<Rightarrow> target_data \<Rightarrow> options \<Rightarrow> string list \<times> string" where
  "build_nmap_command_app now target opts =
     assemble
       (case preset opts of
          None \<Rightarrow> []
        | Some p \<Rightarrow> (case map_of scan_presets_app p of None \<Rightarrow> [] | Some flags \<Rightarrow> flags))
       now target opts"

definition build_nmap_command :: "real \<Rightarrow> target_data \<Rightarrow> options \<Rightarrow> string list \<times> string" where
  "build_nmap_command now target opts =
     assemble
       (case map_of scan_presets (case preset opts of None \<Rightarrow> ''fast'' | Some p \<Rightarrow> p) of
          None \<Rightarrow> []
        | Some flags \<Rightarrow> flags)
       now target opts"

section \<open>The registry of running scans and \<open>scan_single_ip\<close>\<close>

text \<open>
  \<open>active_scans\<close> maps a scan session id to the entry stored while its process runs.
  What the operating system does during one call of \<open>scan_single_ip\<close> is the record
  \<open>job_env\<close>: the clock reading, whether \<open>Popen\<close> raises or gives a process, the
  \<open>datetime\<close> values as text, whether \<open>communicate\<close> raises or gives the two output
  texts, the exit code, which output files exist, the outcome of \<open>ET.parse\<close> on the XML
  file, whether writing the metadata file raises, and whether a cancel request of
  another thread removed the registry entry while the call was waiting.
\<close>

record scan_info =
  process :: nat
  target_ip :: string
  start_time :: string
  output_file :: string


record job_env =
  now :: real
  popen :: "error + nat"
  started :: string
  ended :: string
  duration :: string
  failed_at :: string
  communicate :: "error + (string \<times> string)"
  returncode :: int
  xml_file :: "xml_source option"
  nmap_exists :: bool
  gnmap_exists :: bool
  save_metadata :: "error option"
  cancelled_meanwhile :: bool








section \<open>Cancelling (\<open>NmapScanner.cancel_scan\<close> and the cancel route of app.py)\<close>




section \<open>Events, the cancel route and the session loop (\<open>scan_ip_list\<close>, app.py)\<close>









section \<open>Properties of the range loop\<close>

lemma range_loop_exit: "end < current \<Longrightarrow> range_loop current end ips = Inr ips"
  by (simp add: range_loop.simps)

lemma range_loop_full:
  "current \<le> end \<Longrightarrow> end < ALL_ONES \<Longrightarrow> length ips + (Suc end - current) \<le> 1001 \<Longrightarrow>
   range_loop current end ips = Inr (ips @ map str_ip [current..<Suc end])"
proof (induction current "end" ips rule: range_loop.induct)
  case (1 current "end" ips)
  have step: "ip_add1 current = Inr (Suc current)"
    using "1.prems" by (simp add: ip_add1_def)
  show ?case
  proof (cases "current = end")
    case True
    then show ?thesis
      using step by (simp add: range_loop.simps [of "end" "end" ips] range_loop_exit)
  next
    case False
    with "1.prems" have lt: "Suc current \<le> end" by simp
    have short: "\<not> 1000 < length (ips @ [str_ip current])"
      using "1.prems" lt by simp
    have "range_loop current end ips = range_loop (Suc current) end (ips @ [str_ip current])"
      using "1.prems" step short by (simp add: range_loop.simps [of current "end" ips])
    also have "\<dots> = Inr ((ips @ [str_ip current]) @ map str_ip [Suc current..<Suc end])"
      using "1.IH" [OF _ step short] "1.prems" lt by simp
    also have "\<dots> = Inr (ips @ map str_ip [current..<Suc end])"
    proof -
      have "[current..<Suc end] = current # [Suc current..<Suc end]"
        using lt by (simp add: upt_conv_Cons)
      then show ?thesis by simp
    qed
    finally show ?thesis .
  qed
qed

lemma range_loop_cap:
  "length ips \<le> 1000 \<Longrightarrow> current + (1000 - length ips) \<le> end \<Longrightarrow>
   current + (1000 - length ips) < ALL_ONES \<Longrightarrow>
   range_loop current end ips = Inr (ips @ map str_ip [current..<current + (1001 - length ips)])"
proof (induction current "end" ips rule: range_loop.induct)
  case (1 current "end" ips)
  have le: "current \<le> end" using "1.prems" by simp
  have step: "ip_add1 current = Inr (Suc current)"
    using "1.prems" by (simp add: ip_add1_def)
  show ?case
  proof (cases "length ips = 1000")
    case True
    then show ?thesis
      using le step by (simp add: range_loop.simps [of current "end" ips])
  next
    case False
    with "1.prems" have len: "length ips < 1000" by simp
    then have short: "\<not> 1000 < length (ips @ [str_ip current])" by simp
    have "range_loop current end ips = range_loop (Suc current) end (ips @ [str_ip current])"
      using le step short by (simp add: range_loop.simps [of current "end" ips])
    also have "\<dots> = Inr ((ips @ [str_ip current]) @
        map str_ip [Suc current..<Suc current + (1001 - length (ips @ [str_ip current]))])"
      using "1.IH" [OF le step short] "1.prems" len by simp
    also have "\<dots> = Inr (ips @ map str_ip [current..<current + (1001 - length ips)])"
    proof -
      have "Suc current + (1001 - length (ips @ [str_ip current])) = current + (1001 - length ips)"
        using len by simp
      moreover have "current < current + (1001 - length ips)" using len by simp
      ultimately show ?thesis by (simp add: upt_conv_Cons)
    qed
    finally show ?thesis .
  qed
qed

lemma range_loop_overflow:
  "current \<le> ALL_ONES \<Longrightarrow> ALL_ONES \<le> end \<Longrightarrow> length ips + (ALL_ONES - current) \<le> 1000 \<Longrightarrow>
   range_loop current end ips = Inl AddressValueError"
proof (induction current "end" ips rule: range_loop.induct)
  case (1 current "end" ips)
  have le: "current \<le> end" using "1.prems" by simp
  show ?case
  proof (cases "current = ALL_ONES")
    case True
    have "ip_add1 current = Inl AddressValueError"
      using True by (simp add: ip_add1_def)
    then show ?thesis
      using le by (subst range_loop.simps) simp
  next
    case False
    with "1.prems" have lt: "current < ALL_ONES" by simp
    then have step: "ip_add1 current = Inr (Suc current)" by (simp add: ip_add1_def)
    have short: "\<not> 1000 < length (ips @ [str_ip current])"
      using "1.prems" lt by simp
    have "range_loop current end ips = range_loop (Suc current) end (ips @ [str_ip current])"
      using le step short by (simp add: range_loop.simps [of current "end" ips])
    also have "\<dots> = Inl AddressValueError"
      using "1.IH" [OF le step short] "1.prems" lt by simp
    finally show ?thesis .
  qed
qed

section \<open>Decimal and dotted text read back\<close>

lemma digit_char_props:
  "d < 10 \<Longrightarrow> isdigit (digit_char d)"
  "d < 10 \<Longrightarrow> digit_val (digit_char d) = d"
  "d < 10 \<Longrightarrow> \<not> isspace (digit_char d)"
  "d < 10 \<Longrightarrow> digit_char d \<noteq> CHR ''.''"
  "d < 10 \<Longrightarrow> digit_char d \<noteq> CHR ''-''"
  "d < 10 \<Longrightarrow> digit_char d \<noteq> CHR ''/''"
  "d < 10 \<Longrightarrow> digit_char d \<noteq> CHR '':''"
  "d < 10 \<Longrightarrow> (digit_char d = CHR ''0'') = (d = 0)"
proof -
  assume "d < 10"
  then have d: "d \<in> {0, 1, 2, 3, 4, 5, 6, 7, 8, 9}" by auto
  show "isdigit (digit_char d)" using d by (auto simp: isdigit_def digit_char_def)
  show "digit_val (digit_char d) = d" using d by (auto simp: digit_val_def digit_char_def)
  show "\<not> isspace (digit_char d)" using d by (auto simp: isspace_def digit_char_def)
  show "digit_char d \<noteq> CHR ''.''" using d by (auto simp: digit_char_def)
  show "digit_char d \<noteq> CHR ''-''" using d by (auto simp: digit_char_def)
  show "digit_char d \<noteq> CHR ''/''" using d by (auto simp: digit_char_def)
  show "digit_char d \<noteq> CHR '':''" using d by (auto simp: digit_char_def)
  show "(digit_char d = CHR ''0'') = (d = 0)" using d by (auto simp: digit_char_def)
qed

lemma isdigit_props:
  "isdigit c \<Longrightarrow> \<not> isspace c"
  "isdigit c \<Longrightarrow> c \<noteq> CHR ''.''"
  "isdigit c \<Longrightarrow> c \<noteq> CHR ''-''"
  "isdigit c \<Longrightarrow> c \<noteq> CHR ''/''"
  "isdigit c \<Longrightarrow> c \<noteq> CHR '':''"
  by (auto simp: isdigit_def isspace_def)

lemma str_nat_digits: "list_all isdigit (str_nat n)"
  by (induction n rule: str_nat.induct) (subst str_nat.simps, simp add: digit_char_props)

lemma str_nat_nonempty: "str_nat n \<noteq> []"
  by (subst str_nat.simps) simp

lemma int_of_digits_snoc: "int_of_digits (s @ [c]) = 10 * int_of_digits s + digit_val c"
  by (simp add: int_of_digits_def)

lemma int_of_digits_str_nat: "int_of_digits (str_nat n) = n"
proof (induction n rule: str_nat.induct)
  case (1 n)
  show ?case
  proof (cases "n < 10")
    case True
    then show ?thesis
      by (subst str_nat.simps) (simp add: int_of_digits_def digit_char_props)
  next
    case False
    then show ?thesis
      using "1.IH" by (subst str_nat.simps) (simp add: int_of_digits_snoc digit_char_props)
  qed
qed

lemma hd_str_nat: "hd (str_nat n) = CHR ''0'' \<Longrightarrow> n = 0"
proof (induction n rule: str_nat.induct)
  case (1 n)
  show ?case
  proof (cases "n < 10")
    case True
    with "1.prems" show ?thesis
      by (subst (asm) str_nat.simps) (simp add: digit_char_props)
  next
    case False
    then have "hd (str_nat n) = hd (str_nat (n div 10))"
      by (subst str_nat.simps) (simp add: str_nat_nonempty)
    with "1.prems" "1.IH" False have "n div 10 = 0" by simp
    with False show ?thesis by simp
  qed
qed

lemma str_nat_0: "str_nat 0 = ''0''"
  by (subst str_nat.simps) (simp add: digit_char_def)

lemma length_str_nat_small: "n < 10 \<Longrightarrow> length (str_nat n) = 1"
  by (subst str_nat.simps) simp

lemma length_str_nat: 
  assumes "n < 1000" shows "length (str_nat n) \<le> 3"
proof (cases "n < 10")
  case True
  then show ?thesis by (simp add: length_str_nat_small)
next
  case False
  then have n: "length (str_nat n) = Suc (length (str_nat (n div 10)))"
    by (subst str_nat.simps) simp
  show ?thesis
  proof (cases "n div 10 < 10")
    case True
    then show ?thesis using n by (simp add: length_str_nat_small)
  next
    case False
    then have "length (str_nat (n div 10)) = Suc (length (str_nat (n div 10 div 10)))"
      by (subst str_nat.simps) simp
    moreover have "n div 10 div 10 < 10" using assms by simp
    ultimately show ?thesis using n by (simp add: length_str_nat_small)
  qed
qed

lemma parse_octet_str_nat:
  assumes "n \<le> 255"
  shows "parse_octet (str_nat n) = Some n"
proof -
  have len: "\<not> 3 < length (str_nat n)"
    using assms length_str_nat [of n] by simp
  have lead: "\<not> (str_nat n \<noteq> ''0'' \<and> hd (str_nat n) = CHR ''0'')"
    using hd_str_nat [of n] str_nat_0 by auto
  show ?thesis
    unfolding parse_octet_def using assms len lead
    by (simp add: str_nat_nonempty str_nat_digits int_of_digits_str_nat)
qed

lemma isdigit_not_sep:
  "isdigit c \<Longrightarrow> c \<noteq> CHR ''.'' \<and> c \<noteq> CHR ''-'' \<and> c \<noteq> CHR ''/'' \<and> c \<noteq> CHR '':'' \<and> \<not> isspace c"
  by (auto simp: isdigit_def isspace_def)

lemma str_nat_no_sep:
  "CHR ''.'' \<notin> set (str_nat n)" "CHR ''-'' \<notin> set (str_nat n)"
  "CHR ''/'' \<notin> set (str_nat n)" "CHR '':'' \<notin> set (str_nat n)"
proof -
  have "\<forall>c\<in>set (str_nat n). isdigit c"
    using str_nat_digits [of n] by (simp add: list_all_iff)
  then have *: "\<And>c. c \<in> set (str_nat n) \<Longrightarrow> c \<noteq> CHR ''.'' \<and> c \<noteq> CHR ''-'' \<and> c \<noteq> CHR ''/'' \<and> c \<noteq> CHR '':''"
    using isdigit_not_sep by blast
  show "CHR ''.'' \<notin> set (str_nat n)" using * by blast
  show "CHR ''-'' \<notin> set (str_nat n)" using * by blast
  show "CHR ''/'' \<notin> set (str_nat n)" using * by blast
  show "CHR '':'' \<notin> set (str_nat n)" using * by blast
qed

lemma split_no_sep: "sep \<notin> set s \<Longrightarrow> split sep s = [s]"
  by (induction s) auto

lemma split_append_sep:
  "sep \<notin> set s \<Longrightarrow> split sep (s @ sep # t) = s # split sep t"
  by (induction s) auto

lemma split_dotted4:
  assumes "CHR ''.'' \<notin> set w" "CHR ''.'' \<notin> set x" "CHR ''.'' \<notin> set y" "CHR ''.'' \<notin> set z"
  shows "split CHR ''.'' (join ''.'' [w, x, y, z]) = [w, x, y, z]"
  using assms by (simp add: split_append_sep split_no_sep)

lemma split_str_ip:
  "split CHR ''.'' (str_ip n) = map str_nat (to_bytes n)"
  unfolding str_ip_def to_bytes_def
  using split_dotted4 [of "str_nat (n div 16777216 mod 256)" "str_nat (n div 65536 mod 256)"
      "str_nat (n div 256 mod 256)" "str_nat (n mod 256)"]
  by (simp add: str_nat_no_sep)

lemma str_ip_chars:
  "CHR ''/'' \<notin> set (str_ip n)" "CHR ''-'' \<notin> set (str_ip n)" "CHR '':'' \<notin> set (str_ip n)"
  "CHR ''.'' \<in> set (str_ip n)" "str_ip n \<noteq> []"
  by (simp_all add: str_ip_def to_bytes_def str_nat_no_sep)

lemma from_bytes_to_bytes:
  assumes "n \<le> ALL_ONES"
  shows "from_bytes (n div 16777216 mod 256) (n div 65536 mod 256) (n div 256 mod 256) (n mod 256) = n"
proof -
  have a: "n div 65536 = n div 16777216 * 256 + n div 65536 mod 256"
  proof -
    have "n div 16777216 = n div 65536 div 256" by (simp add: div_mult2_eq [symmetric])
    then show ?thesis by simp
  qed
  have b: "n div 256 = n div 65536 * 256 + n div 256 mod 256"
  proof -
    have "n div 65536 = n div 256 div 256" by (simp add: div_mult2_eq [symmetric])
    then show ?thesis by simp
  qed
  have "n div 16777216 < 256" using assms unfolding ALL_ONES_def by simp
  then have d: "n div 16777216 mod 256 = n div 16777216" by simp
  have "from_bytes (n div 16777216 mod 256) (n div 65536 mod 256) (n div 256 mod 256) (n mod 256)
      = ((n div 16777216 * 256 + n div 65536 mod 256) * 256 + n div 256 mod 256) * 256 + n mod 256"
    unfolding from_bytes_def by (simp only: d)
  also have "\<dots> = (n div 65536 * 256 + n div 256 mod 256) * 256 + n mod 256"
    by (simp only: a [symmetric])
  also have "\<dots> = n div 256 * 256 + n mod 256"
    by (simp only: b [symmetric])
  also have "\<dots> = n" by simp
  finally show ?thesis .
qed

lemma ip_address_str_ip: "n \<le> ALL_ONES \<Longrightarrow> ip_address (str_ip n) = Inr n"
  unfolding ip_address_def
  by (simp add: str_ip_chars split_str_ip to_bytes_def parse_octet_str_nat from_bytes_to_bytes)

lemma split_once_first:
  "sep \<notin> set a \<Longrightarrow> split_once sep (a @ sep # b) = Some (a, b)"
proof -
  assume n: "sep \<notin> set a"
  then have "takeWhile (\<lambda>c. c \<noteq> sep) (a @ sep # b) = a"
    by (subst takeWhile_append2) auto
  moreover have "dropWhile (\<lambda>c. c \<noteq> sep) (a @ sep # b) = sep # b"
    using n by (subst dropWhile_append2) auto
  ultimately show ?thesis by (simp add: split_once_def)
qed

lemma dotted_chars:
  "CHR ''/'' \<notin> set (join ''.'' (map str_nat [A, B, C, D]))"
  "CHR ''-'' \<notin> set (join ''.'' (map str_nat [A, B, C, D]))"
  "CHR '':'' \<notin> set (join ''.'' (map str_nat [A, B, C, D]))"
  "CHR ''.'' \<in> set (join ''.'' (map str_nat [A, B, C, D]))"
  "join ''.'' (map str_nat [A, B, C, D]) \<noteq> []"
  by (simp_all add: str_nat_no_sep)

lemma split_dotted:
  "split CHR ''.'' (join ''.'' (map str_nat [A, B, C, D])) = map str_nat [A, B, C, D]"
  using split_dotted4 [of "str_nat A" "str_nat B" "str_nat C" "str_nat D"]
  by (simp add: str_nat_no_sep)

lemma ip_address_dotted:
  assumes "A \<le> 255" "B \<le> 255" "C \<le> 255" "D \<le> 255"
  shows "ip_address (join ''.'' (map str_nat [A, B, C, D])) = Inr (from_bytes A B C D)"
proof -
  have "map parse_octet (split CHR ''.'' (join ''.'' (map str_nat [A, B, C, D])))
      = [Some A, Some B, Some C, Some D]"
    using assms by (simp only: split_dotted) (simp add: parse_octet_str_nat)
  then show ?thesis
    unfolding ip_address_def using dotted_chars [of A B C D] by simp
qed

lemma range_bounds_full:
  assumes "A \<le> 255" "B \<le> 255" "C \<le> 255" "D \<le> 255"
      and "W \<le> 255" "X \<le> 255" "Y \<le> 255" "Z \<le> 255"
  shows "range_bounds (join ''.'' (map str_nat [A, B, C, D])) (join ''.'' (map str_nat [W, X, Y, Z]))
       = Inr (from_bytes A B C D, from_bytes W X Y Z)"
  unfolding range_bounds_def
  using dotted_chars(4) [of W X Y Z] assms by (simp only: ip_address_dotted if_True) simp

lemma range_bounds_short:
  assumes "A \<le> 255" "B \<le> 255" "C \<le> 255" "D \<le> 255" "E \<le> 255"
  shows "range_bounds (join ''.'' (map str_nat [A, B, C, D])) (str_nat E)
       = Inr (from_bytes A B C D, from_bytes A B C E)"
proof -
  have "join ''.'' (butlast (split CHR ''.'' (join ''.'' (map str_nat [A, B, C, D]))) @ [str_nat E])
      = join ''.'' (map str_nat [A, B, C, E])"
    by (simp only: split_dotted) simp
  then show ?thesis
    unfolding range_bounds_def Let_def
    using str_nat_no_sep(1) [of E] assms by (simp only: ip_address_dotted if_False) simp
qed

lemma expand_range_parsed:
  assumes "CHR ''-'' \<notin> set a"
      and "range_bounds (strip a) (strip b) = Inr (start, end)"
  shows "expand_range (a @ ''-'' @ b) =
         (case range_loop start end [] of Inl e \<Rightarrow> [a @ ''-'' @ b] | Inr ips \<Rightarrow> ips)"
  using assms
  by (cases "range_loop start end []") (simp_all add: expand_range_def split_once_first)

lemma dropWhile_keeps: "c \<in> set xs \<Longrightarrow> \<not> P c \<Longrightarrow> c \<in> set (dropWhile P xs)"
  by (induction xs) auto

lemma strip_keeps: "c \<in> set s \<Longrightarrow> \<not> isspace c \<Longrightarrow> c \<in> set (strip s)"
  unfolding strip_def by (simp add: dropWhile_keeps)

lemma strip_Nil: "strip [] = []"
  by (simp add: strip_def)

lemma process_line_range:
  assumes "CHR ''-'' \<notin> set a" and "CHR ''/'' \<notin> set (strip a)" and "CHR ''/'' \<notin> set (strip b)"
      and "strip a \<noteq> []"
  shows "process_line expand_cidr (a @ ''-'' @ b) =
         map (\<lambda>x. \<lparr>ip = x, ports = []\<rparr>) (expand_range (a @ ''-'' @ b))"
proof -
  have sl: "\<not> isspace CHR ''/''" by (simp add: isspace_def)
  have "CHR ''/'' \<notin> set a" "CHR ''/'' \<notin> set b"
    using assms(2,3) strip_keeps [OF _ sl] by blast+
  moreover have "a \<noteq> []" using assms(4) strip_Nil by auto
  then have "take 1 (a @ ''-'' @ b) \<noteq> ''-''"
    using assms(1) by (cases a) auto
  ultimately show ?thesis by (simp add: process_line_def)
qed

lemma from_bytes_le:
  "A \<le> 255 \<Longrightarrow> B \<le> 255 \<Longrightarrow> C \<le> 255 \<Longrightarrow> D \<le> 255 \<Longrightarrow> from_bytes A B C D \<le> ALL_ONES"
  unfolding from_bytes_def ALL_ONES_def by simp

lemma range_line_bounds:
  assumes "A \<le> 255" "B \<le> 255" "C \<le> 255" "D \<le> 255"
      and "strip a = join ''.'' (map str_nat [A, B, C, D])"
      and "(E \<le> 255 \<and> strip b = str_nat E \<and> end = from_bytes A B C E)
         \<or> (W \<le> 255 \<and> X \<le> 255 \<and> Y \<le> 255 \<and> Z \<le> 255
            \<and> strip b = join ''.'' (map str_nat [W, X, Y, Z]) \<and> end = from_bytes W X Y Z)"
  shows "range_bounds (strip a) (strip b) = Inr (from_bytes A B C D, end)"
    and "end \<le> ALL_ONES"
    and "CHR ''/'' \<notin> set (strip a)" and "CHR ''/'' \<notin> set (strip b)" and "strip a \<noteq> []"
proof -
  show "range_bounds (strip a) (strip b) = Inr (from_bytes A B C D, end)"
    using assms range_bounds_short [of A B C D E] range_bounds_full [of A B C D W X Y Z] by auto
  show "end \<le> ALL_ONES"
    using assms from_bytes_le by auto
  show "CHR ''/'' \<notin> set (strip a)" "strip a \<noteq> []"
    using assms(5) dotted_chars [of A B C D] by simp_all
  show "CHR ''/'' \<notin> set (strip b)"
    using assms(6) dotted_chars(1) [of W X Y Z] str_nat_no_sep(3) [of E] by auto
qed

lemma expand_range_enumerates:
  assumes "A \<le> 255" "B \<le> 255" "C \<le> 255" "D \<le> 255"
      and "CHR ''-'' \<notin> set a" and "strip a = join ''.'' (map str_nat [A, B, C, D])"
      and "(E \<le> 255 \<and> strip b = str_nat E \<and> end = from_bytes A B C E)
         \<or> (W \<le> 255 \<and> X \<le> 255 \<and> Y \<le> 255 \<and> Z \<le> 255
            \<and> strip b = join ''.'' (map str_nat [W, X, Y, Z]) \<and> end = from_bytes W X Y Z)"
      and "start = from_bytes A B C D" and "start \<le> end"
  shows "expand_range (a @ ''-'' @ b) =
          (if end - start \<le> 1000
           then (if end = ALL_ONES then [a @ ''-'' @ b] else map str_ip [start..<Suc end])
           else map str_ip [start..<start + 1001])"
proof -
  note rb = range_line_bounds [OF assms(1-4) assms(6) assms(7)]
  have ex: "expand_range (a @ ''-'' @ b) =
      (case range_loop start end [] of Inl e \<Rightarrow> [a @ ''-'' @ b] | Inr ips \<Rightarrow> ips)"
    using expand_range_parsed [OF assms(5)] rb(1) assms(8) by simp
  show ?thesis
  proof (cases "end - start \<le> 1000")
    case small: True
    show ?thesis
    proof (cases "end = ALL_ONES")
      case True
      then have "range_loop start end [] = Inl AddressValueError"
        using range_loop_overflow [of start "end" "[]"] small assms(9) by simp
      then show ?thesis using ex small True by simp
    next
      case False
      then have "end < ALL_ONES" using rb(2) by simp
      then have "range_loop start end [] = Inr ([] @ map str_ip [start..<Suc end])"
        using range_loop_full [of start "end" "[]"] small assms(9) by simp
      then show ?thesis using ex small False by simp
    qed
  next
    case False
    then have "start + 1000 < end" by simp
    then have "range_loop start end [] = Inr ([] @ map str_ip [start..<start + (1001 - length ([]::string list))])"
      using range_loop_cap [of "[]" start "end"] rb(2) by simp
    then show ?thesis using ex False by simp
  qed
qed

section \<open>Range expansion\<close>

text \<open>
  Claim C1. A range line with start not above end is expanded to the ordered, inclusive
  list of its addresses, and never to more than 1000 of them. The loop tests
  \<open>len(ips) > 1000\<close> after appending, so the line \<open>10.0.0.0-10.0.255.255\<close> is
  expanded to the 1001 addresses 10.0.0.0 .. 10.0.3.232. Lemma \<open>expand_range_enumerates\<close>
  gives the result for every such line.
\<close>

theorem expand_range_exceeds_limit:
  "expand_range ''10.0.0.0-10.0.255.255'' = map str_ip [167772160..<167773161]
   \<and> length (expand_range ''10.0.0.0-10.0.255.255'') = 1001"
proof -
  have a: "strip ''10.0.0.0'' = join ''.'' (map str_nat [10, 0, 0, 0])"
    by (simp add: strip_def isspace_def str_nat.simps digit_char_def)
  have b: "strip ''10.0.255.255'' = join ''.'' (map str_nat [10, 0, 255, 255])"
    by (simp add: strip_def isspace_def str_nat.simps digit_char_def)
  have "expand_range (''10.0.0.0'' @ ''-'' @ ''10.0.255.255'') = map str_ip [167772160..<167773161]"
    using expand_range_enumerates [of 10 0 0 0 "''10.0.0.0''" 0 "''10.0.255.255''"
        "from_bytes 10 0 255 255" 10 0 255 255 "from_bytes 10 0 0 0"] a b
    by (simp add: from_bytes_def)
  then show ?thesis by simp
qed

text \<open>
  Claim C10. A well-formed range line \<open>A.B.C.D-E\<close> or \<open>A.B.C.D-W.X.Y.Z\<close> (white space
  around either part allowed) whose start address is strictly above its end address is
  expanded to the empty list, without an error, and adds no target in \<open>process_input\<close>.
\<close>

theorem reversed_range_yields_no_targets:
  assumes "A \<le> 255" "B \<le> 255" "C \<le> 255" "D \<le> 255"
      and "CHR ''-'' \<notin> set a" and "strip a = join ''.'' (map str_nat [A, B, C, D])"
      and "(E \<le> 255 \<and> strip b = str_nat E \<and> end = from_bytes A B C E)
         \<or> (W \<le> 255 \<and> X \<le> 255 \<and> Y \<le> 255 \<and> Z \<le> 255
            \<and> strip b = join ''.'' (map str_nat [W, X, Y, Z]) \<and> end = from_bytes W X Y Z)"
      and "end < from_bytes A B C D"
  shows "expand_range (a @ ''-'' @ b) = [] \<and> process_line expand_cidr (a @ ''-'' @ b) = []"
proof -
  note rb = range_line_bounds [OF assms(1-4) assms(6) assms(7)]
  have "range_loop (from_bytes A B C D) end [] = Inr []"
    using assms(8) by (rule range_loop_exit)
  then have e: "expand_range (a @ ''-'' @ b) = []"
    using expand_range_parsed [OF assms(5) rb(1)] by simp
  moreover have "process_line expand_cidr (a @ ''-'' @ b) = []"
    using process_line_range [OF assms(5) rb(3) rb(4) rb(5)] e by simp
  ultimately show ?thesis by simp
qed

theorem reversed_range_yields_no_targets_witness:
  "expand_range ''10.0.0.5-2'' = [] \<and> process_line (\<lambda>cidr. [cidr]) ''10.0.0.5-2'' = []
   \<and> expand_range ''10.0.1.5-10.0.0.7'' = []"
proof -
  have a: "strip ''10.0.0.5'' = join ''.'' (map str_nat [10, 0, 0, 5])"
    by (simp add: strip_def isspace_def str_nat.simps digit_char_def)
  have a': "strip ''10.0.1.5'' = join ''.'' (map str_nat [10, 0, 1, 5])"
    by (simp add: strip_def isspace_def str_nat.simps digit_char_def)
  have b: "strip ''2'' = str_nat 2"
    by (simp add: strip_def isspace_def str_nat.simps digit_char_def)
  have b': "strip ''10.0.0.7'' = join ''.'' (map str_nat [10, 0, 0, 7])"
    by (simp add: strip_def isspace_def str_nat.simps digit_char_def)
  have "expand_range (''10.0.0.5'' @ ''-'' @ ''2'') = []
      \<and> process_line (\<lambda>cidr. [cidr]) (''10.0.0.5'' @ ''-'' @ ''2'') = []"
    using reversed_range_yields_no_targets [of 10 0 0 5 "''10.0.0.5''" 2 "''2''"
        "from_bytes 10 0 0 2" 0 0 0 0 "\<lambda>cidr. [cidr]"] a b
    by (simp add: from_bytes_def)
  moreover have "expand_range (''10.0.1.5'' @ ''-'' @ ''10.0.0.7'') = []"
    using reversed_range_yields_no_targets [of 10 0 1 5 "''10.0.1.5''" 0 "''10.0.0.7''"
        "from_bytes 10 0 0 7" 10 0 0 7] a' b'
    by (simp add: from_bytes_def)
  ultimately show ?thesis by simp
qed

section \<open>Dictionaries and the port loop\<close>

lemma map_of_dict_set:
  "map_of (dict_set k v d) k' = (if k' = k then Some v else map_of d k')"
  by (induction d) auto

lemma map_of_dict_update:
  "map_of (dict_update d kvs) k = (case map_of (rev kvs) k of Some v \<Rightarrow> Some v | None \<Rightarrow> map_of d k)"
  by (induction kvs arbitrary: d) (auto simp: map_of_dict_set split: option.splits)

lemma ports_loop_eq:
  "ports_loop entry ps (services, n) =
     (services @ map (\<lambda>p. PDict (entry p)) ps,
      n + int (length (filter (\<lambda>p. map_of (entry p) ''state'' = Some (PStr ''open'')) ps)))"
  by (induction ps arbitrary: services n) auto

lemma port_scripts_step_other:
  "k \<noteq> ''scripts'' \<Longrightarrow> map_of (port_scripts_step port d) k = map_of d k"
  by (simp add: port_scripts_step_def Let_def map_of_dict_set)

lemma port_scripts_app_other:
  "k \<noteq> ''scripts'' \<Longrightarrow> map_of (port_scripts_app port d) k = map_of d k"
  by (simp add: port_scripts_app_def Let_def map_of_dict_set)

lemma port_service_step_state:
  "map_of (port_service_step port d) ''state'' = map_of d ''state''"
  by (simp add: port_service_step_def Let_def map_of_dict_set split: option.split)

lemma port_service_app_state:
  "map_of (port_service_app port d) ''state'' = map_of d ''state''"
  by (simp add: port_service_app_def map_of_dict_set split: option.split)

lemma port_data_state_key:
  "map_of (port_data port) ''state'' =
     Some (case find ''state'' port of None \<Rightarrow> PStr ''unknown'' | Some st \<Rightarrow> opt_str (get st ''state''))"
  by (simp add: port_data_def port_scripts_step_other port_service_step_state
      port_state_step_def port_base_def map_of_dict_set split: option.split)

lemma port_data_app_state_key:
  "map_of (port_data_app port) ''state'' =
     Some (case find ''state'' port of None \<Rightarrow> PStr ''unknown'' | Some st \<Rightarrow> opt_str (get st ''state''))"
  by (simp add: port_data_app_def port_scripts_app_other port_service_app_state
      port_base_app_def split: option.split)

lemma state_is_open:
  "((case find ''state'' port of None \<Rightarrow> PStr ''unknown'' | Some st \<Rightarrow> opt_str (get st ''state'')) = PStr ''open'')
     = (port_state port = Some ''open'')"
  by (simp add: port_state_def opt_str_def split: option.split)

section \<open>What each part of the parsers writes\<close>

lemma host_status_app_other:
  "k \<noteq> ''host_status'' \<Longrightarrow> map_of (host_status_app host r) k = map_of r k"
  by (simp add: host_status_app_def map_of_dict_set split: option.splits)

lemma hostnames_step_other:
  "k \<noteq> ''hostnames'' \<Longrightarrow> map_of (hostnames_step host r) k = map_of r k"
  by (simp add: hostnames_step_def map_of_dict_set split: option.splits)

lemma ports_app_other:
  "k \<noteq> ''services'' \<Longrightarrow> k \<noteq> ''open_ports'' \<Longrightarrow> map_of (ports_app host r) k = map_of r k"
  by (simp add: ports_app_def map_of_dict_set split: option.splits prod.splits)

lemma os_app_other:
  "k \<noteq> ''os_info'' \<Longrightarrow> map_of (os_app host r) k = map_of r k"
  by (simp add: os_app_def map_of_dict_set split: option.splits)

lemma runstats_app_other:
  "k \<noteq> ''scan_summary'' \<Longrightarrow> map_of (runstats_app root_elem r) k = map_of r k"
  by (simp add: runstats_app_def map_of_dict_set split: option.splits)

lemma scaninfo_step_other:
  "k \<noteq> ''scan_info'' \<Longrightarrow> map_of (scaninfo_step root_elem r) k = map_of r k"
  by (simp add: scaninfo_step_def map_of_dict_set split: option.splits)

lemma host_status_step_other:
  "k \<noteq> ''host_status'' \<Longrightarrow> k \<noteq> ''host_status_reason'' \<Longrightarrow>
   map_of (host_status_step host r) k = map_of r k"
  by (simp add: host_status_step_def map_of_dict_set split: option.splits)

lemma address_loop_other:
  "k \<noteq> ''mac_address'' \<Longrightarrow> k \<noteq> ''mac_vendor'' \<Longrightarrow> map_of (address_loop as r) k = map_of r k"
  by (induction as arbitrary: r) (simp_all add: map_of_dict_set)

lemma address_step_other:
  "k \<noteq> ''mac_address'' \<Longrightarrow> k \<noteq> ''mac_vendor'' \<Longrightarrow> map_of (address_step host r) k = map_of r k"
  by (simp add: address_step_def address_loop_other)

lemma ports_step_other:
  "ports_step host r = Inr r' \<Longrightarrow> k \<noteq> ''services'' \<Longrightarrow> k \<noteq> ''open_ports'' \<Longrightarrow>
   k \<noteq> ''extraports'' \<Longrightarrow> map_of r' k = map_of r k"
  by (auto simp: ports_step_def map_of_dict_set split: option.splits prod.splits sum.splits)

lemma os_step_other:
  "k \<noteq> ''os_info'' \<Longrightarrow> k \<noteq> ''os_accuracy'' \<Longrightarrow> k \<noteq> ''os_classes'' \<Longrightarrow> k \<noteq> ''os_portused'' \<Longrightarrow>
   map_of (os_step host r) k = map_of r k"
  by (simp add: os_step_def Let_def map_of_dict_set split: option.splits list.splits)

lemma hostscript_step_other:
  "k \<noteq> ''host_scripts'' \<Longrightarrow> map_of (hostscript_step host r) k = map_of r k"
  by (simp add: hostscript_step_def Let_def map_of_dict_set)

lemma trace_step_other:
  "k \<noteq> ''traceroute'' \<Longrightarrow> map_of (trace_step host r) k = map_of r k"
  by (simp add: trace_step_def map_of_dict_set split: option.splits)

lemma times_step_other:
  "k \<noteq> ''scan_times'' \<Longrightarrow> map_of (times_step host r) k = map_of r k"
  by (simp add: times_step_def map_of_dict_set split: option.splits)

lemma runstats_step_other:
  "runstats_step root_elem r = Inr r' \<Longrightarrow> k \<noteq> ''scan_summary'' \<Longrightarrow> k \<noteq> ''hosts_summary'' \<Longrightarrow>
   map_of r' k = map_of r k"
  by (auto simp: runstats_step_def Let_def map_of_dict_set split: option.splits sum.splits)

text \<open>What the later parts of the body leave alone.\<close>

lemma after_ports_other:
  assumes "runstats_step root_elem (times_step host (trace_step host
             (hostscript_step host (os_step host r)))) = Inr r'"
      and "k \<noteq> ''os_info''" "k \<noteq> ''os_accuracy''" "k \<noteq> ''os_classes''" "k \<noteq> ''os_portused''"
      and "k \<noteq> ''host_scripts''" "k \<noteq> ''traceroute''" "k \<noteq> ''scan_times''"
      and "k \<noteq> ''scan_summary''" "k \<noteq> ''hosts_summary''"
  shows "map_of r' k = map_of r k"
proof -
  have "map_of r' k = map_of (times_step host (trace_step host
             (hostscript_step host (os_step host r)))) k"
    using assms(1) assms(9) assms(10) by (rule runstats_step_other)
  also have "\<dots> = map_of (trace_step host (hostscript_step host (os_step host r))) k"
    using assms(8) by (rule times_step_other)
  also have "\<dots> = map_of (hostscript_step host (os_step host r)) k"
    using assms(7) by (rule trace_step_other)
  also have "\<dots> = map_of (os_step host r) k"
    using assms(6) by (rule hostscript_step_other)
  also have "\<dots> = map_of r k"
    using assms(2-5) by (rule os_step_other)
  finally show ?thesis .
qed

section \<open>The parsers' results\<close>

lemma map_of_initial_result_app:
  "map_of initial_result_app ''host_status'' = Some (PStr ''down'')"
  "map_of initial_result_app ''services'' = Some (PList [])"
  "map_of initial_result_app ''open_ports'' = Some (PInt 0)"
  "map_of initial_result_app ''parse_error'' = None"
  by (simp_all add: initial_result_app_def)

lemma map_of_initial_result:
  "map_of initial_result ''host_status'' = Some (PStr ''down'')"
  "map_of initial_result ''services'' = Some (PList [])"
  "map_of initial_result ''open_ports'' = Some (PInt 0)"
  "map_of initial_result ''parse_error'' = None"
  by (simp_all add: initial_result_def)

lemma parse_app_key:
  assumes "find ''host'' root_elem = Some host"
      and "k \<noteq> ''scan_summary''" "k \<noteq> ''os_info''"
  shows "map_of (parse_nmap_xml_app (Inr root_elem)) k =
         map_of (ports_app host (hostnames_step host (host_status_app host initial_result_app))) k"
  using assms by (simp add: parse_nmap_xml_app_def runstats_app_other os_app_other)

lemma parse_app_host_status:
  assumes "find ''host'' root_elem = Some host"
  shows "map_of (parse_nmap_xml_app (Inr root_elem)) ''host_status'' =
         Some (PStr (case find ''status'' host of
                       None \<Rightarrow> ''down'' | Some status \<Rightarrow> get_or status ''state'' ''unknown''))"
proof -
  have "map_of (parse_nmap_xml_app (Inr root_elem)) ''host_status'' =
        map_of (host_status_app host initial_result_app) ''host_status''"
    by (simp add: parse_app_key [OF assms] ports_app_other hostnames_step_other)
  then show ?thesis
    by (simp add: host_status_app_def map_of_dict_set map_of_initial_result_app split: option.split)
qed

lemma ports_app_services:
  "map_of (ports_app host r) ''services'' =
     (case find ''ports'' host of
        None \<Rightarrow> map_of r ''services''
      | Some ports_elem \<Rightarrow> Some (PList (map (\<lambda>p. PDict (port_data_app p)) (findall ''port'' ports_elem))))"
  by (simp add: ports_app_def ports_loop_eq map_of_dict_set split: option.split)

lemma ports_app_open_ports:
  "map_of (ports_app host r) ''open_ports'' =
     (case find ''ports'' host of
        None \<Rightarrow> map_of r ''open_ports''
      | Some ports_elem \<Rightarrow>
          Some (PInt (int (length (filter (\<lambda>p. port_state p = Some ''open'') (findall ''port'' ports_elem))))))"
  by (simp add: ports_app_def ports_loop_eq map_of_dict_set port_data_app_state_key state_is_open
      split: option.split)

lemma parse_app_services:
  "map_of (parse_nmap_xml_app (Inr root_elem)) ''services'' =
     Some (PList (map (\<lambda>p. PDict (port_data_app p)) (port_nodes root_elem)))"
proof (cases "find ''host'' root_elem")
  case None
  then show ?thesis
    by (simp add: parse_nmap_xml_app_def port_nodes_def map_of_initial_result_app)
next
  case (Some host)
  show ?thesis
    by (simp add: parse_app_key [OF Some] ports_app_services port_nodes_def Some
        hostnames_step_other host_status_app_other map_of_initial_result_app split: option.split)
qed

lemma parse_app_open_ports:
  "map_of (parse_nmap_xml_app (Inr root_elem)) ''open_ports'' =
     Some (PInt (int (length (filter (\<lambda>p. port_state p = Some ''open'') (port_nodes root_elem)))))"
proof (cases "find ''host'' root_elem")
  case None
  then show ?thesis
    by (simp add: parse_nmap_xml_app_def port_nodes_def map_of_initial_result_app)
next
  case (Some host)
  show ?thesis
    by (simp add: parse_app_key [OF Some] ports_app_open_ports port_nodes_def Some
        hostnames_step_other host_status_app_other map_of_initial_result_app split: option.split)
qed

text \<open>The parser of nmap_scanner.py.\<close>

lemma parse_no_error:
  assumes "map_of (parse_nmap_xml (Inr root_elem)) ''parse_error'' = None"
  shows "parse_body root_elem = Inr (parse_nmap_xml (Inr root_elem))"
  using assms by (cases "parse_body root_elem") (simp_all add: parse_nmap_xml_def)

lemma before_ports_key:
  assumes "k \<noteq> ''mac_address''" "k \<noteq> ''mac_vendor''" "k \<noteq> ''hostnames''" "k \<noteq> ''scan_info''"
  shows "map_of (address_step host (hostnames_step host (host_status_step host
            (scaninfo_step root_elem initial_result)))) k
       = map_of (host_status_step host initial_result) k"
proof -
  have "map_of (address_step host (hostnames_step host (host_status_step host
            (scaninfo_step root_elem initial_result)))) k
      = map_of (host_status_step host (scaninfo_step root_elem initial_result)) k"
    using assms by (simp add: address_step_other hostnames_step_other)
  also have "\<dots> = map_of (host_status_step host initial_result) k"
    using assms(4)
    by (simp add: host_status_step_def map_of_dict_set scaninfo_step_other split: option.split)
  finally show ?thesis .
qed

lemma ports_step_services:
  assumes "ports_step host r = Inr r'"
  shows "map_of r' ''services'' =
     (case find ''ports'' host of
        None \<Rightarrow> map_of r ''services''
      | Some ports_elem \<Rightarrow> Some (PList (map (\<lambda>p. PDict (port_data p)) (findall ''port'' ports_elem))))"
  using assms
  by (auto simp: ports_step_def ports_loop_eq map_of_dict_set split: option.splits sum.splits)

lemma ports_step_open_ports:
  assumes "ports_step host r = Inr r'"
  shows "map_of r' ''open_ports'' =
     (case find ''ports'' host of
        None \<Rightarrow> map_of r ''open_ports''
      | Some ports_elem \<Rightarrow>
          Some (PInt (int (length (filter (\<lambda>p. port_state p = Some ''open'') (findall ''port'' ports_elem))))))"
  using assms
  by (auto simp: ports_step_def ports_loop_eq map_of_dict_set port_data_state_key state_is_open
      split: option.splits sum.splits)

text \<open>A successful run of the body, taken apart.\<close>

lemma parse_body_cases:
  assumes "parse_body root_elem = Inr result"
  obtains (no_host) "find ''host'' root_elem = None" "result = scaninfo_step root_elem initial_result"
        | (host) host mid where "find ''host'' root_elem = Some host"
            "ports_step host (address_step host (hostnames_step host (host_status_step host
               (scaninfo_step root_elem initial_result)))) = Inr mid"
            "runstats_step root_elem (times_step host (trace_step host
               (hostscript_step host (os_step host mid)))) = Inr result"
  using assms
  by (auto simp: parse_body_def Let_def split: option.splits sum.splits)

lemma parse_body_host_status:
  assumes "parse_body root_elem = Inr result" "find ''host'' root_elem = Some host"
  shows "map_of result ''host_status'' =
         Some (PStr (case find ''status'' host of
                       None \<Rightarrow> ''down'' | Some status \<Rightarrow> get_or status ''state'' ''unknown''))"
  using assms(1)
proof (cases rule: parse_body_cases)
  case no_host
  then show ?thesis using assms(2) by simp
next
  case (host h mid)
  then have h: "h = host" using assms(2) by simp
  have "map_of result ''host_status'' = map_of mid ''host_status''"
    using after_ports_other [OF host(3)] by simp
  also have "\<dots> = map_of (address_step host (hostnames_step host (host_status_step host
               (scaninfo_step root_elem initial_result)))) ''host_status''"
    using ports_step_other [OF host(2)] h by simp
  also have "\<dots> = map_of (host_status_step host initial_result) ''host_status''"
    by (simp add: before_ports_key)
  also have "\<dots> = Some (PStr (case find ''status'' host of
                       None \<Rightarrow> ''down'' | Some status \<Rightarrow> get_or status ''state'' ''unknown''))"
    by (simp add: host_status_step_def map_of_dict_set map_of_initial_result split: option.split)
  finally show ?thesis .
qed

lemma parse_body_services:
  assumes "parse_body root_elem = Inr result"
  shows "map_of result ''services'' = Some (PList (map (\<lambda>p. PDict (port_data p)) (port_nodes root_elem)))"
  using assms
proof (cases rule: parse_body_cases)
  case no_host
  then show ?thesis
    by (simp add: port_nodes_def scaninfo_step_other map_of_initial_result)
next
  case (host h mid)
  have "map_of result ''services'' = map_of mid ''services''"
    using after_ports_other [OF host(3)] by simp
  also have "\<dots> = Some (PList (map (\<lambda>p. PDict (port_data p)) (port_nodes root_elem)))"
  proof (cases "find ''ports'' h")
    case None
    then show ?thesis
      using ports_step_services [OF host(2)]
      by (simp add: before_ports_key port_nodes_def host(1) host_status_step_other
          map_of_initial_result)
  next
    case (Some ports_elem)
    then show ?thesis
      using ports_step_services [OF host(2)] by (simp add: port_nodes_def host(1))
  qed
  finally show ?thesis .
qed

lemma parse_body_open_ports:
  assumes "parse_body root_elem = Inr result"
  shows "map_of result ''open_ports'' =
     Some (PInt (int (length (filter (\<lambda>p. port_state p = Some ''open'') (port_nodes root_elem)))))"
  using assms
proof (cases rule: parse_body_cases)
  case no_host
  then show ?thesis
    by (simp add: port_nodes_def scaninfo_step_other map_of_initial_result)
next
  case (host h mid)
  have "map_of result ''open_ports'' = map_of mid ''open_ports''"
    using after_ports_other [OF host(3)] by simp
  also have "\<dots> = Some (PInt (int (length (filter (\<lambda>p. port_state p = Some ''open'') (port_nodes root_elem)))))"
  proof (cases "find ''ports'' h")
    case None
    then show ?thesis
      using ports_step_open_ports [OF host(2)]
      by (simp add: before_ports_key port_nodes_def host(1) host_status_step_other
          map_of_initial_result)
  next
    case (Some ports_elem)
    then show ?thesis
      using ports_step_open_ports [OF host(2)] by (simp add: port_nodes_def host(1))
  qed
  finally show ?thesis .
qed

lemma port_data_no_service:
  assumes "find ''service'' port = None" "k \<in> {''service'', ''product'', ''version''}"
  shows "map_of (port_data port) k = None" "map_of (port_data_app port) k = None"
proof -
  have k: "k \<noteq> ''scripts''" "k \<noteq> ''state''" "k \<noteq> ''reason''" "k \<noteq> ''reason_ttl''"
          "k \<noteq> ''port''" "k \<noteq> ''protocol''"
    using assms(2) by auto
  show "map_of (port_data port) k = None"
    using assms(1) k
    by (simp add: port_data_def port_scripts_step_other port_service_step_def
        port_state_step_def port_base_def map_of_dict_set split: option.split)
  show "map_of (port_data_app port) k = None"
    using assms(1) k
    by (simp add: port_data_app_def port_scripts_app_other port_service_app_def port_base_app_def)
qed

lemma port_data_with_service:
  assumes "find ''service'' port = Some service"
  shows "map_of (port_data port) ''service'' = Some (PStr (get_or service ''name'' ''''))"
    and "map_of (port_data port) ''product'' = Some (PStr (get_or service ''product'' ''''))"
    and "map_of (port_data port) ''version'' = Some (PStr (get_or service ''version'' ''''))"
    and "map_of (port_data_app port) ''service'' = Some (PStr (get_or service ''name'' ''''))"
    and "map_of (port_data_app port) ''product'' = Some (PStr (get_or service ''product'' ''''))"
    and "map_of (port_data_app port) ''version'' = Some (PStr (get_or service ''version'' ''''))"
  using assms
  by (simp_all add: port_data_def port_data_app_def port_scripts_step_other port_scripts_app_other
      port_service_step_def port_service_app_def Let_def map_of_dict_set)

text \<open>
  Claim C2. A host element without a status child is reported with host status
  \<open>unknown\<close>. Both parsers start from \<open>'host_status': 'down'\<close> and change it only when a
  status node is found, so such a host is reported as \<open>down\<close>.
\<close>

theorem host_status_absent_counterexample:
  "find ''status'' (Element ''host'' [] None []) = None
   \<and> map_of (parse_nmap_xml (Inr (Element ''nmaprun'' [] None [Element ''host'' [] None []])))
        ''host_status'' = Some (PStr ''down'')
   \<and> map_of (parse_nmap_xml_app (Inr (Element ''nmaprun'' [] None [Element ''host'' [] None []])))
        ''host_status'' = Some (PStr ''down'')"
  by code_simp

text \<open>
  Claim C2, as the code has it: the reported host status is \<open>down\<close> when the host has no
  status node, the node's \<open>state\<close> attribute when it has one, and \<open>unknown\<close> when the
  status node lacks that attribute (for nmap_scanner.py: whenever the result carries no
  parse error).
\<close>

theorem host_status_of_status_node:
  assumes "find ''host'' root_elem = Some host"
  shows "map_of (parse_nmap_xml_app (Inr root_elem)) ''host_status'' =
           Some (PStr (case find ''status'' host of
                         None \<Rightarrow> ''down'' | Some status \<Rightarrow> get_or status ''state'' ''unknown''))
       \<and> (map_of (parse_nmap_xml (Inr root_elem)) ''parse_error'' = None \<longrightarrow>
           map_of (parse_nmap_xml (Inr root_elem)) ''host_status'' =
             Some (PStr (case find ''status'' host of
                           None \<Rightarrow> ''down'' | Some status \<Rightarrow> get_or status ''state'' ''unknown'')))"
  using parse_app_host_status [OF assms] parse_body_host_status [OF parse_no_error assms]
  by simp

theorem host_status_of_status_node_witness:
  "find ''host'' (Element ''nmaprun'' [] None
       [Element ''host'' [] None [Element ''status'' [(''reason'', ''echo-reply'')] None []]])
     = Some (Element ''host'' [] None [Element ''status'' [(''reason'', ''echo-reply'')] None []])
   \<and> map_of (parse_nmap_xml (Inr (Element ''nmaprun'' [] None
       [Element ''host'' [] None [Element ''status'' [(''reason'', ''echo-reply'')] None []]])))
       ''parse_error'' = None
   \<and> map_of (parse_nmap_xml (Inr (Element ''nmaprun'' [] None
       [Element ''host'' [] None [Element ''status'' [(''reason'', ''echo-reply'')] None []]])))
       ''host_status'' = Some (PStr ''unknown'')
   \<and> map_of (parse_nmap_xml_app (Inr (Element ''nmaprun'' [] None
       [Element ''host'' [] None [Element ''status'' [(''reason'', ''echo-reply'')] None []]])))
       ''host_status'' = Some (PStr ''unknown'')"
proof -
  let ?host = "Element ''host'' [] None [Element ''status'' [(''reason'', ''echo-reply'')] None []]"
  let ?root_elem = "Element ''nmaprun'' [] None [?host]"
  have h: "find ''host'' ?root_elem = Some ?host" by (simp add: find_def)
  have e: "map_of (parse_nmap_xml (Inr ?root_elem)) ''parse_error'' = None" by code_simp
  have s: "(case find ''status'' ?host of None \<Rightarrow> ''down''
            | Some status \<Rightarrow> get_or status ''state'' ''unknown'') = ''unknown''"
    by (simp add: find_def get_or_def)
  show ?thesis
    using host_status_of_status_node [OF h] h e s by simp
qed

text \<open>
  Claim C3. A port node without a service sub-node still gets the service name, product
  and version fields, as empty strings. In both parsers these keys are written only inside
  \<open>if service is not None\<close>, so the entry of such a port has no \<open>service\<close> key at all.
\<close>

theorem service_fields_counterexample:
  "find ''service'' (Element ''port'' [(''protocol'', ''tcp''), (''portid'', ''81'')] None
      [Element ''state'' [(''state'', ''open'')] None []]) = None
   \<and> map_of (port_data (Element ''port'' [(''protocol'', ''tcp''), (''portid'', ''81'')] None
      [Element ''state'' [(''state'', ''open'')] None []])) ''service'' = None
   \<and> map_of (port_data_app (Element ''port'' [(''protocol'', ''tcp''), (''portid'', ''81'')] None
      [Element ''state'' [(''state'', ''open'')] None []])) ''service'' = None"
  by code_simp

text \<open>
  Claim C3, as the code has it: the entry of a port node without a service sub-node has
  none of the keys \<open>service\<close>, \<open>product\<close>, \<open>version\<close>; the entry of a port node with one
  has all three, each a string: the attribute's value, or the empty string when the
  attribute is absent.
\<close>

theorem service_fields_follow_service_node:
  "(find ''service'' port = None \<longrightarrow>
      (\<forall>k \<in> {''service'', ''product'', ''version''}.
         map_of (port_data port) k = None \<and> map_of (port_data_app port) k = None))
   \<and> (find ''service'' port = Some service \<longrightarrow>
        map_of (port_data port) ''service'' = Some (PStr (get_or service ''name'' ''''))
      \<and> map_of (port_data port) ''product'' = Some (PStr (get_or service ''product'' ''''))
      \<and> map_of (port_data port) ''version'' = Some (PStr (get_or service ''version'' ''''))
      \<and> map_of (port_data_app port) ''service'' = Some (PStr (get_or service ''name'' ''''))
      \<and> map_of (port_data_app port) ''product'' = Some (PStr (get_or service ''product'' ''''))
      \<and> map_of (port_data_app port) ''version'' = Some (PStr (get_or service ''version'' '''')))"
proof (intro conjI impI ballI)
  fix k
  assume "find ''service'' port = None" and "k \<in> {''service'', ''product'', ''version''}"
  then show "map_of (port_data port) k = None" and "map_of (port_data_app port) k = None"
    by (rule port_data_no_service)+
next
  assume s: "find ''service'' port = Some service"
  show "map_of (port_data port) ''service'' = Some (PStr (get_or service ''name'' ''''))"
    by (rule port_data_with_service(1) [OF s])
  show "map_of (port_data port) ''product'' = Some (PStr (get_or service ''product'' ''''))"
    by (rule port_data_with_service(2) [OF s])
  show "map_of (port_data port) ''version'' = Some (PStr (get_or service ''version'' ''''))"
    by (rule port_data_with_service(3) [OF s])
  show "map_of (port_data_app port) ''service'' = Some (PStr (get_or service ''name'' ''''))"
    by (rule port_data_with_service(4) [OF s])
  show "map_of (port_data_app port) ''product'' = Some (PStr (get_or service ''product'' ''''))"
    by (rule port_data_with_service(5) [OF s])
  show "map_of (port_data_app port) ''version'' = Some (PStr (get_or service ''version'' ''''))"
    by (rule port_data_with_service(6) [OF s])
qed

theorem service_fields_follow_service_node_witness:
  "find ''service'' (Element ''port'' [(''portid'', ''80'')] None
      [Element ''service'' [(''name'', ''http'')] None []])
     = Some (Element ''service'' [(''name'', ''http'')] None [])
   \<and> map_of (port_data (Element ''port'' [(''portid'', ''80'')] None
      [Element ''service'' [(''name'', ''http'')] None []])) ''service'' = Some (PStr ''http'')
   \<and> map_of (port_data (Element ''port'' [(''portid'', ''80'')] None
      [Element ''service'' [(''name'', ''http'')] None []])) ''product'' = Some (PStr '''')
   \<and> find ''service'' (Element ''port'' [(''portid'', ''81'')] None []) = None
   \<and> map_of (port_data (Element ''port'' [(''portid'', ''81'')] None [])) ''version'' = None
   \<and> map_of (port_data_app (Element ''port'' [(''portid'', ''81'')] None [])) ''product'' = None"
proof -
  let ?svc = "Element ''service'' [(''name'', ''http'')] None []"
  let ?p80 = "Element ''port'' [(''portid'', ''80'')] None [?svc]"
  let ?p81 = "Element ''port'' [(''portid'', ''81'')] None []"
  have a: "find ''service'' ?p80 = Some ?svc" by (simp add: find_def)
  have b: "find ''service'' ?p81 = None" by (simp add: find_def)
  have g: "get_or ?svc ''name'' '''' = ''http''" "get_or ?svc ''product'' '''' = ''''"
    by (simp_all add: get_or_def)
  show ?thesis
    using service_fields_follow_service_node [of ?p80 ?svc]
          service_fields_follow_service_node [of ?p81 ?svc] a b g
    by simp
qed

lemma child_in_descendants: "c \<in> set (children e) \<Longrightarrow> c \<in> set (descendants e)"
  by (cases e) auto

lemma descendants_of_child:
  "c \<in> set (children e) \<Longrightarrow> d \<in> set (descendants c) \<Longrightarrow> d \<in> set (descendants e)"
  by (cases e) auto

lemma find_in_children: "find t e = Some c \<Longrightarrow> c \<in> set (children e)"
  by (auto simp: find_def find_Some_iff)

lemma findall_in_children: "c \<in> set (findall t e) \<Longrightarrow> c \<in> set (children e) \<and> tag c = t"
  by (simp add: findall_def)

lemma port_nodes_subset: "set (port_nodes root_elem) \<subseteq> set (all_port_nodes root_elem)"
proof
  fix p
  assume "p \<in> set (port_nodes root_elem)"
  then obtain host ports_elem where h: "find ''host'' root_elem = Some host"
      and q: "find ''ports'' host = Some ports_elem"
      and p: "p \<in> set (findall ''port'' ports_elem)"
    by (cases "find ''host'' root_elem"; cases "find ''ports'' (the (find ''host'' root_elem))")
       (simp_all add: port_nodes_def)
  have "p \<in> set (descendants ports_elem)"
    using p findall_in_children child_in_descendants by blast
  then have "p \<in> set (descendants host)"
    using find_in_children [OF q] descendants_of_child by blast
  then have "p \<in> set (descendants root_elem)"
    using find_in_children [OF h] descendants_of_child by blast
  moreover have "tag p = ''port''" using p findall_in_children by blast
  ultimately show "p \<in> set (all_port_nodes root_elem)"
    by (simp add: all_port_nodes_def)
qed

text \<open>
  Claim C9. For every well-formed artifact each port node contributes one entry to
  \<open>services\<close> and \<open>open_ports\<close> is the number of port nodes whose state equals \<open>open\<close>.
  Both parsers read \<open>root.find('host')\<close> and \<open>host.find('ports')\<close>, the first of each
  only: an artifact with two hosts, one open port each, has two open port nodes and is
  reported with one entry and \<open>open_ports\<close> 1.
\<close>

theorem open_ports_first_host_only_counterexample:
  "length (filter (\<lambda>p. port_state p = Some ''open'') (all_port_nodes
      (Element ''nmaprun'' [] None
        [Element ''host'' [] None
           [Element ''ports'' [] None
              [Element ''port'' [(''protocol'', ''tcp''), (''portid'', ''80'')] None
                 [Element ''state'' [(''state'', ''open'')] None []]]],
         Element ''host'' [] None
           [Element ''ports'' [] None
              [Element ''port'' [(''protocol'', ''tcp''), (''portid'', ''22'')] None
                 [Element ''state'' [(''state'', ''open'')] None []]]]]))) = 2
   \<and> map_of (parse_nmap_xml (Inr
      (Element ''nmaprun'' [] None
        [Element ''host'' [] None
           [Element ''ports'' [] None
              [Element ''port'' [(''protocol'', ''tcp''), (''portid'', ''80'')] None
                 [Element ''state'' [(''state'', ''open'')] None []]]],
         Element ''host'' [] None
           [Element ''ports'' [] None
              [Element ''port'' [(''protocol'', ''tcp''), (''portid'', ''22'')] None
                 [Element ''state'' [(''state'', ''open'')] None []]]]]))) ''parse_error'' = None
   \<and> map_of (parse_nmap_xml (Inr
      (Element ''nmaprun'' [] None
        [Element ''host'' [] None
           [Element ''ports'' [] None
              [Element ''port'' [(''protocol'', ''tcp''), (''portid'', ''80'')] None
                 [Element ''state'' [(''state'', ''open'')] None []]]],
         Element ''host'' [] None
           [Element ''ports'' [] None
              [Element ''port'' [(''protocol'', ''tcp''), (''portid'', ''22'')] None
                 [Element ''state'' [(''state'', ''open'')] None []]]]]))) ''open_ports''
       = Some (PInt 1)
   \<and> map_of (parse_nmap_xml_app (Inr
      (Element ''nmaprun'' [] None
        [Element ''host'' [] None
           [Element ''ports'' [] None
              [Element ''port'' [(''protocol'', ''tcp''), (''portid'', ''80'')] None
                 [Element ''state'' [(''state'', ''open'')] None []]]],
         Element ''host'' [] None
           [Element ''ports'' [] None
              [Element ''port'' [(''protocol'', ''tcp''), (''portid'', ''22'')] None
                 [Element ''state'' [(''state'', ''open'')] None []]]]]))) ''open_ports''
       = Some (PInt 1)
   \<and> map_of (parse_nmap_xml_app (Inr
      (Element ''nmaprun'' [] None
        [Element ''host'' [] None
           [Element ''ports'' [] None
              [Element ''port'' [(''protocol'', ''tcp''), (''portid'', ''80'')] None
                 [Element ''state'' [(''state'', ''open'')] None []]]],
         Element ''host'' [] None
           [Element ''ports'' [] None
              [Element ''port'' [(''protocol'', ''tcp''), (''portid'', ''22'')] None
                 [Element ''state'' [(''state'', ''open'')] None []]]]]))) ''services''
       = Some (PList [PDict [(''port'', PStr ''80''), (''protocol'', PStr ''tcp''),
                             (''state'', PStr ''open'')]])"
  by code_simp

text \<open>
  Claim C9, as the code has it: the port nodes of the first ports block of the first
  host contribute exactly one entry each to \<open>services\<close>, in document order, and
  \<open>open_ports\<close> is the number of those whose state attribute equals \<open>open\<close>; they are
  port nodes of the artifact, and where they are all of them the count is that of the
  artifact. For nmap_scanner.py this holds whenever the result carries no parse error
  (its \<open>int\<close> conversions of the \<open>count\<close>, \<open>up\<close>, \<open>down\<close> and \<open>total\<close> attributes succeed).
\<close>

theorem open_ports_counts_open_port_nodes:
  "map_of (parse_nmap_xml_app (Inr root_elem)) ''services'' =
     Some (PList (map (\<lambda>p. PDict (port_data_app p)) (port_nodes root_elem)))
   \<and> map_of (parse_nmap_xml_app (Inr root_elem)) ''open_ports'' =
     Some (PInt (int (length (filter (\<lambda>p. port_state p = Some ''open'') (port_nodes root_elem)))))
   \<and> (map_of (parse_nmap_xml (Inr root_elem)) ''parse_error'' = None \<longrightarrow>
        map_of (parse_nmap_xml (Inr root_elem)) ''services'' =
          Some (PList (map (\<lambda>p. PDict (port_data p)) (port_nodes root_elem)))
      \<and> map_of (parse_nmap_xml (Inr root_elem)) ''open_ports'' =
          Some (PInt (int (length (filter (\<lambda>p. port_state p = Some ''open'') (port_nodes root_elem))))))
   \<and> set (port_nodes root_elem) \<subseteq> set (all_port_nodes root_elem)
   \<and> (all_port_nodes root_elem = port_nodes root_elem \<longrightarrow>
        map_of (parse_nmap_xml_app (Inr root_elem)) ''open_ports'' =
          Some (PInt (int (length (filter (\<lambda>p. port_state p = Some ''open'')
                                     (all_port_nodes root_elem)))))
      \<and> (map_of (parse_nmap_xml (Inr root_elem)) ''parse_error'' = None \<longrightarrow>
           map_of (parse_nmap_xml (Inr root_elem)) ''open_ports'' =
             Some (PInt (int (length (filter (\<lambda>p. port_state p = Some ''open'')
                                        (all_port_nodes root_elem)))))))"
  using parse_app_services [of root_elem] parse_app_open_ports [of root_elem]
        parse_body_services [OF parse_no_error, of root_elem]
        parse_body_open_ports [OF parse_no_error, of root_elem]
        port_nodes_subset [of root_elem]
  by simp

theorem open_ports_counts_open_port_nodes_witness:
  "map_of (parse_nmap_xml (Inr (Element ''nmaprun'' [] None
      [Element ''host'' [] None
         [Element ''ports'' [] None
            [Element ''extraports'' [(''state'', ''closed''), (''count'', ''998'')] None [],
             Element ''port'' [(''protocol'', ''tcp''), (''portid'', ''80'')] None
               [Element ''state'' [(''state'', ''open'')] None []],
             Element ''port'' [(''protocol'', ''tcp''), (''portid'', ''81'')] None
               [Element ''state'' [(''state'', ''closed'')] None []]]]]))) ''parse_error'' = None
   \<and> map_of (parse_nmap_xml (Inr (Element ''nmaprun'' [] None
      [Element ''host'' [] None
         [Element ''ports'' [] None
            [Element ''extraports'' [(''state'', ''closed''), (''count'', ''998'')] None [],
             Element ''port'' [(''protocol'', ''tcp''), (''portid'', ''80'')] None
               [Element ''state'' [(''state'', ''open'')] None []],
             Element ''port'' [(''protocol'', ''tcp''), (''portid'', ''81'')] None
               [Element ''state'' [(''state'', ''closed'')] None []]]]]))) ''open_ports''
       = Some (PInt 1)
   \<and> map_of (parse_nmap_xml_app (Inr (Element ''nmaprun'' [] None
      [Element ''host'' [] None
         [Element ''ports'' [] None
            [Element ''extraports'' [(''state'', ''closed''), (''count'', ''998'')] None [],
             Element ''port'' [(''protocol'', ''tcp''), (''portid'', ''80'')] None
               [Element ''state'' [(''state'', ''open'')] None []],
             Element ''port'' [(''protocol'', ''tcp''), (''portid'', ''81'')] None
               [Element ''state'' [(''state'', ''closed'')] None []]]]]))) ''open_ports''
       = Some (PInt 1)"
proof -
  let ?root_elem = "Element ''nmaprun'' [] None
      [Element ''host'' [] None
         [Element ''ports'' [] None
            [Element ''extraports'' [(''state'', ''closed''), (''count'', ''998'')] None [],
             Element ''port'' [(''protocol'', ''tcp''), (''portid'', ''80'')] None
               [Element ''state'' [(''state'', ''open'')] None []],
             Element ''port'' [(''protocol'', ''tcp''), (''portid'', ''81'')] None
               [Element ''state'' [(''state'', ''closed'')] None []]]]]"
  have e: "map_of (parse_nmap_xml (Inr ?root_elem)) ''parse_error'' = None"
    by code_simp
  have c: "int (length (filter (\<lambda>p. port_state p = Some ''open'') (port_nodes ?root_elem))) = 1"
    by code_simp
  show ?thesis
    using open_ports_counts_open_port_nodes [of ?root_elem] e c by simp
qed

section \<open>The command builder and the clock\<close>

text \<open>
  Claim C7. The command builder is a pure function of target and configuration, the
  time stamp being passed in. The source reads \<open>time.time()\<close> inside the builder, so two
  calls with the same target and the same options at different seconds give different
  output names and different argument lists.
\<close>

theorem build_reads_clock_counterexample:
  "build_nmap_command 1700000000 \<lparr>ip = ''10.0.0.5'', ports = []\<rparr>
      \<lparr>preset = Some ''fast'', scripts = False, version_detection = False, os_detection = False,
       skip_ping = False, ping_only = False, aggressive = False, verbose = False,
       timing = Some ''-T4'', custom_ports = None\<rparr>
   \<noteq> build_nmap_command 1700000001 \<lparr>ip = ''10.0.0.5'', ports = []\<rparr>
      \<lparr>preset = Some ''fast'', scripts = False, version_detection = False, os_detection = False,
       skip_ping = False, ping_only = False, aggressive = False, verbose = False,
       timing = Some ''-T4'', custom_ports = None\<rparr>
   \<and> build_nmap_command_app 1700000000 \<lparr>ip = ''10.0.0.5'', ports = []\<rparr>
      \<lparr>preset = Some ''fast'', scripts = False, version_detection = False, os_detection = False,
       skip_ping = False, ping_only = False, aggressive = False, verbose = False,
       timing = Some ''-T4'', custom_ports = None\<rparr>
   \<noteq> build_nmap_command_app 1700000001 \<lparr>ip = ''10.0.0.5'', ports = []\<rparr>
      \<lparr>preset = Some ''fast'', scripts = False, version_detection = False, os_detection = False,
       skip_ping = False, ping_only = False, aggressive = False, verbose = False,
       timing = Some ''-T4'', custom_ports = None\<rparr>"
  by (simp add: build_nmap_command_app_def build_nmap_command_def assemble_def
      scan_presets_app_def scan_presets_def option_flags_def timing_flag_def port_flag_def
      output_file_name_def safe_ip_def int_of_time_def str_int_def str_nat.simps digit_char_def)

lemma str_nat_inj: "str_nat a = str_nat b \<Longrightarrow> a = b"
  by (metis int_of_digits_str_nat)

lemma hd_str_nat_not_minus: "hd (str_nat n) \<noteq> CHR ''-''"
proof -
  have "hd (str_nat n) \<in> set (str_nat n)"
    using str_nat_nonempty [of n] by simp
  then show ?thesis using str_nat_no_sep(2) [of n] by auto
qed

lemma str_int_inj:
  assumes "str_int a = str_int b"
  shows "a = b"
proof (cases "a < 0")
  case an: True
  show ?thesis
  proof (cases "b < 0")
    case True
    then have "nat (- a) = nat (- b)"
      using assms an by (simp add: str_int_def str_nat_inj)
    then show ?thesis using an True by simp
  next
    case False
    then have "CHR ''-'' # str_nat (nat (- a)) = str_nat (nat b)"
      using assms an by (simp add: str_int_def)
    then have "hd (str_nat (nat b)) = CHR ''-''" by (metis list.sel(1))
    then show ?thesis using hd_str_nat_not_minus by simp
  qed
next
  case ap: False
  show ?thesis
  proof (cases "b < 0")
    case True
    then have "str_nat (nat a) = CHR ''-'' # str_nat (nat (- b))"
      using assms ap by (simp add: str_int_def)
    then have "hd (str_nat (nat a)) = CHR ''-''" by simp
    then show ?thesis using hd_str_nat_not_minus by simp
  next
    case False
    then have "nat a = nat b"
      using assms ap by (simp add: str_int_def str_nat_inj)
    then show ?thesis using ap False by simp
  qed
qed

lemma output_file_name_eq:
  "(output_file_name now1 target = output_file_name now2 target) = (int_of_time now1 = int_of_time now2)"
  using str_int_inj by (auto simp: output_file_name_def)

lemma assemble_snd_eq:
  "(snd (assemble flags now1 target opts) = snd (assemble flags now2 target opts))
     = (int_of_time now1 = int_of_time now2)"
  by (simp add: assemble_def Let_def output_file_name_eq)

lemma assemble_fst_eq:
  "(fst (assemble flags now1 target opts) = fst (assemble flags now2 target opts))
     = (int_of_time now1 = int_of_time now2)"
  by (simp add: assemble_def Let_def output_file_name_eq)

lemma assemble_eq:
  "(assemble flags now1 target opts = assemble flags now2 target opts)
     = (int_of_time now1 = int_of_time now2)"
  using assemble_fst_eq [of flags now1 target opts now2] assemble_snd_eq [of flags now1 target opts now2]
  by (auto simp: prod_eq_iff)

text \<open>
  Claim C7, as the code has it: the argument list and the output base name are determined
  by the target, the options and the whole second of the clock read by the call. Two
  readings give the same argument list, and the same base name, exactly when they fall
  in the same second; the base name is \<open>scan_\<close>, the address with dots and colons
  replaced, and that second.
\<close>

theorem build_determined_by_clock_second:
  "(build_nmap_command now1 target opts = build_nmap_command now2 target opts)
      = (int_of_time now1 = int_of_time now2)
   \<and> (fst (build_nmap_command now1 target opts) = fst (build_nmap_command now2 target opts))
      = (int_of_time now1 = int_of_time now2)
   \<and> (snd (build_nmap_command now1 target opts) = snd (build_nmap_command now2 target opts))
      = (int_of_time now1 = int_of_time now2)
   \<and> (build_nmap_command_app now1 target opts = build_nmap_command_app now2 target opts)
      = (int_of_time now1 = int_of_time now2)
   \<and> (fst (build_nmap_command_app now1 target opts) = fst (build_nmap_command_app now2 target opts))
      = (int_of_time now1 = int_of_time now2)
   \<and> (snd (build_nmap_command_app now1 target opts) = snd (build_nmap_command_app now2 target opts))
      = (int_of_time now1 = int_of_time now2)
   \<and> snd (build_nmap_command now1 target opts)
       = ''scan_'' @ safe_ip (ip target) @ ''_'' @ str_int (int_of_time now1)
   \<and> snd (build_nmap_command_app now1 target opts)
       = ''scan_'' @ safe_ip (ip target) @ ''_'' @ str_int (int_of_time now1)"
  unfolding build_nmap_command_def build_nmap_command_app_def
  by (simp only: assemble_eq assemble_fst_eq assemble_snd_eq)
     (simp add: assemble_def output_file_name_def)

theorem build_determined_by_clock_second_witness:
  "int_of_time 1700000000.25 = int_of_time 1700000000.75
   \<and> build_nmap_command 1700000000.25 \<lparr>ip = ''10.0.0.5'', ports = []\<rparr>
      \<lparr>preset = Some ''fast'', scripts = False, version_detection = False, os_detection = False,
       skip_ping = False, ping_only = False, aggressive = False, verbose = False,
       timing = Some ''-T4'', custom_ports = None\<rparr>
     = build_nmap_command 1700000000.75 \<lparr>ip = ''10.0.0.5'', ports = []\<rparr>
      \<lparr>preset = Some ''fast'', scripts = False, version_detection = False, os_detection = False,
       skip_ping = False, ping_only = False, aggressive = False, verbose = False,
       timing = Some ''-T4'', custom_ports = None\<rparr>
   \<and> int_of_time 1700000000.25 \<noteq> int_of_time 1700000001.5
   \<and> fst (build_nmap_command_app 1700000000.25 \<lparr>ip = ''10.0.0.5'', ports = []\<rparr>
      \<lparr>preset = Some ''fast'', scripts = False, version_detection = False, os_detection = False,
       skip_ping = False, ping_only = False, aggressive = False, verbose = False,
       timing = Some ''-T4'', custom_ports = None\<rparr>)
     \<noteq> fst (build_nmap_command_app 1700000001.5 \<lparr>ip = ''10.0.0.5'', ports = []\<rparr>
      \<lparr>preset = Some ''fast'', scripts = False, version_detection = False, os_detection = False,
       skip_ping = False, ping_only = False, aggressive = False, verbose = False,
       timing = Some ''-T4'', custom_ports = None\<rparr>)"
proof -
  let ?t = "\<lparr>ip = ''10.0.0.5'', ports = []\<rparr>"
  let ?o = "\<lparr>preset = Some ''fast'', scripts = False, version_detection = False, os_detection = False,
       skip_ping = False, ping_only = False, aggressive = False, verbose = False,
       timing = Some ''-T4'', custom_ports = None\<rparr>"
  have t: "int_of_time 1700000000.25 = int_of_time 1700000000.75"
    by (simp add: int_of_time_def)
  have u: "int_of_time 1700000000.25 \<noteq> int_of_time 1700000001.5"
    by (simp add: int_of_time_def)
  have "build_nmap_command 1700000000.25 ?t ?o = build_nmap_command 1700000000.75 ?t ?o"
    using build_determined_by_clock_second [where ?now1.0 = "1700000000.25" and target = ?t and opts = ?o and ?now2.0 = "1700000000.75"] t by blast
  moreover have "fst (build_nmap_command_app 1700000000.25 ?t ?o)
      \<noteq> fst (build_nmap_command_app 1700000001.5 ?t ?o)"
    using build_determined_by_clock_second [where ?now1.0 = "1700000000.25" and target = ?t and opts = ?o and ?now2.0 = "1700000001.5"] u by blast
  ultimately show ?thesis using t u by blast
qed

section \<open>The registry\<close>




section \<open>Cancelling\<close>




section \<open>Root-level parse failures\<close>





section \<open>The session loop\<close>







end
